theory Spec2Isabelle
  imports Complex_Main
begin

section \<open>Python values and exceptions\<close>

text \<open>
  The scripts read JSON and handle it with Python's dynamic operations. A parsed JSON
  document is a value of \<open>json\<close>; a JSON object is an association list (its keys are
  distinct after parsing). Integers are unbounded. A number with a fraction or an
  exponent is a float, and the parser also accepts the literals \<open>NaN\<close>, \<open>Infinity\<close> and
  \<open>-Infinity\<close>. A float is a double: a finite value, kept as the rational number it is,
  an infinity, or NaN. The two zeros are one value.
\<close>

datatype pyfloat = Finite rat | PosInf | NegInf | NaN

datatype json =
    JNull
  | JBool bool
  | JInt int
  | JFloat pyfloat
  | JStr string
  | JList "json list"
  | JDict "(string \<times> json) list"

datatype exn =
    KeyError
  | TypeError
  | AttributeError
  | ValueError
  | IndexError
  | ZeroDivisionError
  | OverflowError
  | FileNotFoundError
  | UnpicklingError

text \<open>Sequencing of statements that may raise: the first exception ends the block.\<close>

definition and_then :: "exn + 'a \<Rightarrow> ('a \<Rightarrow> exn + 'b) \<Rightarrow> exn + 'b" where
  "and_then m f = (case m of Inl e \<Rightarrow> Inl e | Inr v \<Rightarrow> f v)"

text \<open>\<open>obj[key]\<close> with a string key.\<close>

fun getitem :: "json \<Rightarrow> string \<Rightarrow> exn + json" where
  "getitem (JDict d) k = (case map_of d k of None \<Rightarrow> Inl KeyError | Some v \<Rightarrow> Inr v)"
| "getitem _ k = Inl TypeError"

text \<open>\<open>obj.get(key, default)\<close>: only a dict has the method.\<close>

fun py_get :: "json \<Rightarrow> string \<Rightarrow> json \<Rightarrow> exn + json" where
  "py_get (JDict d) k dflt = Inr (case map_of d k of None \<Rightarrow> dflt | Some v \<Rightarrow> v)"
| "py_get _ k dflt = Inl AttributeError"

text \<open>\<open>for x in obj\<close>: a list gives its elements, a dict its keys, a string its characters.\<close>

fun py_iter :: "json \<Rightarrow> exn + json list" where
  "py_iter (JList xs) = Inr xs"
| "py_iter (JDict d) = Inr (map (\<lambda>kv. JStr (fst kv)) d)"
| "py_iter (JStr s) = Inr (map (\<lambda>c. JStr [c]) s)"
| "py_iter _ = Inl TypeError"

text \<open>\<open>len(obj)\<close>.\<close>

fun py_len :: "json \<Rightarrow> exn + nat" where
  "py_len (JList xs) = Inr (length xs)"
| "py_len (JDict d) = Inr (length d)"
| "py_len (JStr s) = Inr (length s)"
| "py_len _ = Inl TypeError"

text \<open>\<open>obj[:10]\<close>: a list or a string can be sliced.\<close>

fun py_slice10 :: "json \<Rightarrow> exn + json" where
  "py_slice10 (JList xs) = Inr (JList (take 10 xs))"
| "py_slice10 (JStr s) = Inr (JStr (take 10 s))"
| "py_slice10 _ = Inl TypeError"

text \<open>
  A number is an int or a float; a bool counts as the int 1 or 0. Nothing else is a
  number.
\<close>

datatype pynum = PInt int | PFloat pyfloat

fun num_of :: "json \<Rightarrow> pynum option" where
  "num_of (JInt i) = Some (PInt i)"
| "num_of (JFloat f) = Some (PFloat f)"
| "num_of (JBool b) = Some (PInt (if b then 1 else 0))"
| "num_of _ = None"

text \<open>
  Comparison of floats: nothing is less than NaN and NaN is less than nothing. Python
  compares an int with a float by their exact values.
\<close>

fun float_lt :: "pyfloat \<Rightarrow> pyfloat \<Rightarrow> bool" where
  "float_lt NaN _ = False"
| "float_lt _ NaN = False"
| "float_lt (Finite x) (Finite y) = (x < y)"
| "float_lt _ NegInf = False"
| "float_lt NegInf _ = True"
| "float_lt PosInf _ = False"
| "float_lt _ PosInf = True"

definition float_le :: "pyfloat \<Rightarrow> pyfloat \<Rightarrow> bool" where
  "float_le a b \<longleftrightarrow> a \<noteq> NaN \<and> b \<noteq> NaN \<and> \<not> float_lt b a"

fun value_of :: "pynum \<Rightarrow> pyfloat" where
  "value_of (PInt i) = Finite (of_int i)"
| "value_of (PFloat f) = f"

definition num_lt :: "pynum \<Rightarrow> pynum \<Rightarrow> bool" where
  "num_lt a b = float_lt (value_of a) (value_of b)"

definition num_le :: "pynum \<Rightarrow> pynum \<Rightarrow> bool" where
  "num_le a b = float_le (value_of a) (value_of b)"

definition num_zero :: "pynum \<Rightarrow> bool" where
  "num_zero a \<longleftrightarrow> value_of a = Finite 0"

text \<open>
  The range of doubles. A value of magnitude \<open>2^1024 - 2^970\<close> or more rounds beyond the
  greatest double: float arithmetic gives an infinity there, and the conversion of an
  int to a float raises \<open>OverflowError\<close>. Below that bound a finite result is kept
  exact: the rounding to the nearest double is not modelled.
\<close>

definition overflows :: "rat \<Rightarrow> bool" where
  "overflows q \<longleftrightarrow> 2 ^ 1024 - 2 ^ 970 \<le> \<bar>q\<bar>"

definition to_float :: "rat \<Rightarrow> pyfloat" where
  "to_float q = (if overflows q then (if 0 < q then PosInf else NegInf) else Finite q)"

definition int_to_float :: "int \<Rightarrow> exn + pyfloat" where
  "int_to_float i = (if overflows (of_int i) then Inl OverflowError else Inr (Finite (of_int i)))"

text \<open>The quotient of two floats, the divisor not zero, and the product of two floats.\<close>

fun float_div :: "pyfloat \<Rightarrow> pyfloat \<Rightarrow> pyfloat" where
  "float_div NaN _ = NaN"
| "float_div _ NaN = NaN"
| "float_div (Finite x) (Finite y) = to_float (x / y)"
| "float_div (Finite x) _ = Finite 0"
| "float_div PosInf (Finite y) = (if 0 < y then PosInf else NegInf)"
| "float_div NegInf (Finite y) = (if 0 < y then NegInf else PosInf)"
| "float_div _ _ = NaN"

fun float_mul :: "pyfloat \<Rightarrow> pyfloat \<Rightarrow> pyfloat" where
  "float_mul NaN _ = NaN"
| "float_mul _ NaN = NaN"
| "float_mul (Finite x) (Finite y) = to_float (x * y)"
| "float_mul (Finite x) PosInf = (if x = 0 then NaN else if 0 < x then PosInf else NegInf)"
| "float_mul (Finite x) NegInf = (if x = 0 then NaN else if 0 < x then NegInf else PosInf)"
| "float_mul PosInf (Finite y) = (if y = 0 then NaN else if 0 < y then PosInf else NegInf)"
| "float_mul NegInf (Finite y) = (if y = 0 then NaN else if 0 < y then NegInf else PosInf)"
| "float_mul PosInf PosInf = PosInf"
| "float_mul NegInf NegInf = PosInf"
| "float_mul _ _ = NegInf"

text \<open>
  \<open>a / b\<close> on numbers. Two ints are divided exactly, and the quotient must fit a float.
  With a float on either side the int is converted first, which may raise, and only
  then is the divisor tested for zero.
\<close>

fun true_divide :: "pynum \<Rightarrow> pynum \<Rightarrow> exn + pyfloat" where
  "true_divide (PInt a) (PInt b) =
     (if b = 0 then Inl ZeroDivisionError
      else if overflows (of_int a / of_int b) then Inl OverflowError
      else Inr (Finite (of_int a / of_int b)))"
| "true_divide (PInt a) (PFloat f) =
     (case int_to_float a of Inl e \<Rightarrow> Inl e
      | Inr x \<Rightarrow> if f = Finite 0 then Inl ZeroDivisionError else Inr (float_div x f))"
| "true_divide (PFloat f) (PInt b) =
     (case int_to_float b of Inl e \<Rightarrow> Inl e
      | Inr y \<Rightarrow> if y = Finite 0 then Inl ZeroDivisionError else Inr (float_div f y))"
| "true_divide (PFloat f) (PFloat h) =
     (if h = Finite 0 then Inl ZeroDivisionError else Inr (float_div f h))"

text \<open>
  \<open>max(v, 1)\<close>: Python keeps the first argument unless the second is greater, and the
  comparison \<open>1 > v\<close> raises when \<open>v\<close> is not a number. With NaN the comparison is
  false, so NaN is kept.
\<close>

definition py_max1 :: "json \<Rightarrow> exn + pynum" where
  "py_max1 v = (case num_of v of None \<Rightarrow> Inl TypeError
                | Some x \<Rightarrow> Inr (if num_lt x (PInt 1) then PInt 1 else x))"

text \<open>\<open>a / b\<close> where \<open>b\<close> is already a number.\<close>

definition py_truediv :: "json \<Rightarrow> pynum \<Rightarrow> exn + pyfloat" where
  "py_truediv a b = (case num_of a of None \<Rightarrow> Inl TypeError | Some x \<Rightarrow> true_divide x b)"

text \<open>\<open>v > c\<close> for an integer constant \<open>c\<close>.\<close>

definition py_gt :: "json \<Rightarrow> int \<Rightarrow> exn + bool" where
  "py_gt v c = (case num_of v of None \<Rightarrow> Inl TypeError | Some x \<Rightarrow> Inr (num_lt (PInt c) x))"

text \<open>
  \<open>v // 10\<close>: floor division. An int gives an int; a finite float gives the floor as a
  float; an infinity and NaN give NaN.
\<close>

definition py_floordiv10 :: "json \<Rightarrow> exn + pynum" where
  "py_floordiv10 v =
     (case num_of v of
        None \<Rightarrow> Inl TypeError
      | Some (PInt i) \<Rightarrow> Inr (PInt (i div 10))
      | Some (PFloat (Finite r)) \<Rightarrow> Inr (PFloat (Finite (of_int \<lfloor>r / 10\<rfloor>)))
      | Some (PFloat _) \<Rightarrow> Inr (PFloat NaN))"

text \<open>
  Membership in a Python set goes by hash and equality: \<open>1\<close>, \<open>1.0\<close> and \<open>True\<close> are one
  element, every NaN of the parser is the same object, and a list or a dict cannot be a
  member.
\<close>

datatype hashable = HNone | HNum pyfloat | HStr string

fun py_hash :: "json \<Rightarrow> exn + hashable" where
  "py_hash JNull = Inr HNone"
| "py_hash (JStr s) = Inr (HStr s)"
| "py_hash (JList xs) = Inl TypeError"
| "py_hash (JDict d) = Inl TypeError"
| "py_hash v = (case num_of v of None \<Rightarrow> Inl TypeError | Some x \<Rightarrow> Inr (HNum (value_of x)))"

text \<open>A loop whose body may raise, collecting the results.\<close>

fun for_each :: "('a \<Rightarrow> exn + 'b) \<Rightarrow> 'a list \<Rightarrow> exn + 'b list" where
  "for_each f [] = Inr []"
| "for_each f (x # xs) =
     (case f x of Inl e \<Rightarrow> Inl e
      | Inr y \<Rightarrow> (case for_each f xs of Inl e \<Rightarrow> Inl e | Inr ys \<Rightarrow> Inr (y # ys)))"

text \<open>\<open>needle in haystack\<close> on strings.\<close>

fun py_in :: "string \<Rightarrow> string \<Rightarrow> bool" where
  "py_in needle [] = (needle = [])"
| "py_in needle (c # cs) = (take (length needle) (c # cs) = needle \<or> py_in needle cs)"


section \<open>The training pipeline (scripts/ml\_training.py)\<close>

text \<open>
  The modelling library is not part of the repository. What the pipeline needs of it is
  a parameter:
  \<^item> \<open>json_loads\<close>: the JSON parser;
  \<^item> \<open>archetype_fit\<close>: lines 42 to 59 of \<open>train_archetype_classifier\<close> (array
    conversion, split with seed 42, scaling, fitting a forest with seed 42, prediction,
    accuracy), which return the accuracy or raise;
  \<^item> \<open>np_unique_len\<close>: \<open>len(np.unique(y))\<close>;
  \<^item> \<open>str_len\<close>: \<open>len(str(v))\<close>, the length of Python's rendering of a value;
  \<^item> \<open>np_random\<close>: the draws of the process-wide random generator, by position;
  \<^item> \<open>content_fit\<close>: lines 87 to 92 of \<open>train_content_optimizer\<close> (the two arrays and
    the fit of the gradient-boosting regressor), which may raise.
\<close>

record pylib =
  json_loads :: "string \<Rightarrow> exn + json"
  archetype_fit :: "json \<Rightarrow> json \<Rightarrow> exn + rat"
  np_unique_len :: "json \<Rightarrow> exn + nat"
  str_len :: "json \<Rightarrow> nat"
  np_random :: "nat \<Rightarrow> rat"
  content_fit :: "(nat \<times> rat \<times> pynum) list \<Rightarrow> pyfloat list \<Rightarrow> exn option"

text \<open>
  \<open>self.results\<close>. The key \<open>error\<close> exists only in the fallback object of \<open>main\<close>;
  \<open>timestamp\<close> (the wall clock) is left out.
\<close>

record results =
  patterns_discovered :: nat
  cross_neuron_learnings :: nat
  improvement_opportunities :: nat
  archetype_insights :: nat
  content_optimizations :: nat
  models_updated :: "string list"
  accuracy :: rat
  error :: "exn option"

text \<open>
  The trainer object. The fitted models and scalers are opaque, so the dictionaries
  \<open>self.models\<close> and \<open>self.scalers\<close> are kept by their keys.
\<close>

record trainer =
  models :: "string list"
  scalers :: "string list"
  results :: results

definition init_trainer :: trainer where
  "init_trainer =
     \<lparr>models = [], scalers = [],
      results = \<lparr>patterns_discovered = 0, cross_neuron_learnings = 0,
                 improvement_opportunities = 0, archetype_insights = 0,
                 content_optimizations = 0, models_updated = [], accuracy = 0,
                 error = None\<rparr>\<rparr>"

subsection \<open>discover\_patterns\<close>

text \<open>Line 127: the denominator \<open>max(perf.get('clicks', 1), 1)\<close> and the conversion rate.\<close>

definition clicks_denominator :: "json \<Rightarrow> exn + pynum" where
  "clicks_denominator perf = and_then (py_get perf ''clicks'' (JInt 1)) py_max1"

definition conversion_rate :: "json \<Rightarrow> exn + pyfloat" where
  "conversion_rate perf =
     and_then (py_get perf ''conversions'' (JInt 0)) (\<lambda>conv.
     and_then (clicks_denominator perf) (\<lambda>d.
     py_truediv conv d))"

text \<open>
  The body of the loop of lines 125 to 134: the patterns one neuron adds to the set.
  The constant \<open>0.05\<close> is the double nearest to it.
\<close>

definition threshold_005 :: pyfloat where
  "threshold_005 = Finite (3602879701896397 / 72057594037927936)"

definition neuron_patterns :: "json \<Rightarrow> exn + string list" where
  "neuron_patterns neuron =
     and_then (py_get neuron ''performance'' (JDict [])) (\<lambda>perf.
     and_then (conversion_rate perf) (\<lambda>rate.
     and_then (py_get perf ''revenue'' (JInt 0)) (\<lambda>rev.
     and_then (py_gt rev 100) (\<lambda>revenue_generating.
     and_then (py_get neuron ''healthScore'' (JInt 0)) (\<lambda>hs.
     and_then (py_gt hs 80) (\<lambda>healthy.
     Inr ((if float_lt threshold_005 rate then [''high_conversion''] else [])
          @ (if revenue_generating then [''revenue_generating''] else [])
          @ (if healthy then [''healthy_performance''] else []))))))))"

definition neuron_vertical :: "json \<Rightarrow> exn + hashable" where
  "neuron_vertical n = and_then (py_get n ''vertical'' (JStr ''unknown'')) py_hash"

text \<open>The \<open>try\<close> block of \<open>discover_patterns\<close>: the three counters it computes.\<close>

definition discover_patterns_body :: "json \<Rightarrow> exn + (nat \<times> nat \<times> nat)" where
  "discover_patterns_body training_data =
     and_then (getitem training_data ''metadata'') (\<lambda>neurons.
     and_then (py_iter neurons) (\<lambda>ns.
     and_then (for_each neuron_patterns ns) (\<lambda>added.
     and_then (for_each neuron_vertical ns) (\<lambda>vs.
       let patterns = remdups (concat added);
           verticals = remdups vs;
           cross_learnings = min (length verticals * 2) 10
       in Inr (length patterns + cross_learnings, cross_learnings,
               min (length patterns) 12)))))"

definition discover_patterns :: "trainer \<Rightarrow> json \<Rightarrow> trainer" where
  "discover_patterns t training_data =
     (case discover_patterns_body training_data of
        Inr (pd, cl, io) \<Rightarrow>
          t\<lparr>results := (results t)\<lparr>patterns_discovered := pd,
                                   cross_neuron_learnings := cl,
                                   improvement_opportunities := io\<rparr>\<rparr>
      | Inl e \<Rightarrow>
          t\<lparr>results := (results t)\<lparr>patterns_discovered := 8,
                                   cross_neuron_learnings := 3,
                                   improvement_opportunities := 5\<rparr>\<rparr>)"

subsection \<open>train\_archetype\_classifier\<close>

text \<open>
  The \<open>try\<close> block either returns early (fewer than 10 feature rows), or raises before
  anything is stored, or stores the model (lines 62 to 65) and then computes line 66,
  which may still raise after the trainer was changed.
\<close>

definition train_archetype_classifier :: "pylib \<Rightarrow> trainer \<Rightarrow> json \<Rightarrow> trainer" where
  "train_archetype_classifier lib t training_data =
     (case and_then (getitem training_data ''features'') (\<lambda>fs.
           and_then (py_len fs) (\<lambda>n. Inr (fs, n))) of
        Inl e \<Rightarrow> t\<lparr>results := (results t)\<lparr>archetype_insights := 1\<rparr>\<rparr>
      | Inr (fs, n) \<Rightarrow>
          if n < 10 then t\<lparr>results := (results t)\<lparr>archetype_insights := 2\<rparr>\<rparr>
          else
            (case and_then (getitem training_data ''labels'') (\<lambda>ls.
                  and_then (archetype_fit lib fs ls) (\<lambda>acc. Inr (ls, acc))) of
               Inl e \<Rightarrow> t\<lparr>results := (results t)\<lparr>archetype_insights := 1\<rparr>\<rparr>
             | Inr (ls, acc) \<Rightarrow>
                 let t1 = t\<lparr>models := models t @ [''archetype_classifier''],
                            scalers := scalers t @ [''archetype_classifier''],
                            results := (results t)
                              \<lparr>models_updated :=
                                 models_updated (results t) @ [''archetype-classifier''],
                               accuracy := max (accuracy (results t)) acc\<rparr>\<rparr>
                 in (case np_unique_len lib ls of
                       Inl e \<Rightarrow> t1\<lparr>results := (results t1)\<lparr>archetype_insights := 1\<rparr>\<rparr>
                     | Inr u \<Rightarrow>
                         t1\<lparr>results := (results t1)\<lparr>archetype_insights := min u 8\<rparr>\<rparr>)))"

subsection \<open>train\_content\_optimizer\<close>

record content_feature =
  cf_length :: nat
  cf_readability :: rat
  cf_keywords :: pynum

text \<open>One item of \<open>extract_content_features\<close>; \<open>i\<close> is the position of the item.\<close>

definition content_feature_of :: "pylib \<Rightarrow> nat \<Rightarrow> json \<Rightarrow> exn + content_feature" where
  "content_feature_of lib i item =
     and_then (py_get item ''analytics'' (JList [])) (\<lambda>an.
     and_then (py_get item ''performance'' (JDict [])) (\<lambda>perf.
     and_then (py_get perf ''clicks'' (JInt 0)) (\<lambda>clicks.
     and_then (py_floordiv10 clicks) (\<lambda>kw.
     Inr \<lparr>cf_length = str_len lib an,
          cf_readability = 7 / 10 + np_random lib i * (3 / 10),
          cf_keywords = kw\<rparr>))))"

fun content_features_from :: "pylib \<Rightarrow> nat \<Rightarrow> json list \<Rightarrow> exn + content_feature list" where
  "content_features_from lib i [] = Inr []"
| "content_features_from lib i (item # items) =
     (case content_feature_of lib i item of Inl e \<Rightarrow> Inl e
      | Inr f \<Rightarrow> (case content_features_from lib (Suc i) items of Inl e \<Rightarrow> Inl e
                  | Inr fs \<Rightarrow> Inr (f # fs)))"

definition extract_content_features :: "pylib \<Rightarrow> json \<Rightarrow> exn + content_feature list" where
  "extract_content_features lib training_data =
     and_then (getitem training_data ''metadata'') (\<lambda>md.
     and_then (py_slice10 md) (\<lambda>sl.
     and_then (py_iter sl) (\<lambda>items.
     content_features_from lib 0 items)))"

text \<open>
  \<open>f['readability'] * f['keywords'] * 0.1\<close>: an int among the keywords is converted to
  a float, which may raise.
\<close>

definition engagement_score :: "content_feature \<Rightarrow> exn + pyfloat" where
  "engagement_score f =
     (case (case cf_keywords f of PInt k \<Rightarrow> int_to_float k | PFloat x \<Rightarrow> Inr x) of
        Inl e \<Rightarrow> Inl e
      | Inr x \<Rightarrow> Inr (float_mul (float_mul (Finite (cf_readability f)) x) (Finite (1 / 10))))"

definition calculate_engagement_scores :: "content_feature list \<Rightarrow> exn + pyfloat list" where
  "calculate_engagement_scores content_features = for_each engagement_score content_features"

definition train_content_optimizer :: "pylib \<Rightarrow> trainer \<Rightarrow> json \<Rightarrow> trainer" where
  "train_content_optimizer lib t training_data =
     (case extract_content_features lib training_data of
        Inl e \<Rightarrow> t\<lparr>results := (results t)\<lparr>content_optimizations := 5\<rparr>\<rparr>
      | Inr content_features \<Rightarrow>
          if length content_features < 5
          then t\<lparr>results := (results t)\<lparr>content_optimizations := 3\<rparr>\<rparr>
          else
            (case calculate_engagement_scores content_features of
               Inl e \<Rightarrow> t\<lparr>results := (results t)\<lparr>content_optimizations := 5\<rparr>\<rparr>
             | Inr engagement_scores \<Rightarrow>
                 let X = map (\<lambda>f. (cf_length f, cf_readability f, cf_keywords f))
                             content_features
                 in if length X > 3
                    then (case content_fit lib X engagement_scores of
                            Some e \<Rightarrow>
                              t\<lparr>results := (results t)\<lparr>content_optimizations := 5\<rparr>\<rparr>
                          | None \<Rightarrow>
                              t\<lparr>models := models t @ [''content_optimizer''],
                                results := (results t)
                                  \<lparr>models_updated :=
                                     models_updated (results t) @ [''content-optimizer''],
                                   content_optimizations :=
                                     min (length content_features) 15\<rparr>\<rparr>)
                    else t))"

subsection \<open>main\<close>

text \<open>
  What the script leaves behind: the JSON object it printed last, or the exception that
  reached the shell as a traceback.
\<close>

datatype 'a outcome = Printed 'a | Uncaught exn

definition fallback_results :: "exn \<Rightarrow> results" where
  "fallback_results e =
     \<lparr>patterns_discovered = 12, cross_neuron_learnings = 4,
      improvement_opportunities = 7, archetype_insights = 3,
      content_optimizations = 9, models_updated = [''archetype-classifier''],
      accuracy = 82 / 100, error = Some e\<rparr>"

text \<open>
  The \<open>try\<close> block of \<open>main\<close>, after the arguments \<open>--data\<close> and \<open>--models\<close> were
  parsed. \<open>save_models\<close> writes the artifacts inside a handler of its own and changes
  no result, so it does not appear.
\<close>

definition pipeline :: "pylib \<Rightarrow> string \<Rightarrow> string \<Rightarrow> exn + results" where
  "pipeline lib data models_arg =
     and_then (json_loads lib data) (\<lambda>training_data.
       let t0 = discover_patterns init_trainer training_data;
           t1 = (if py_in ''archetype'' models_arg \<or> models_arg = ''all''
                 then train_archetype_classifier lib t0 training_data else t0);
           t2 = (if py_in ''content'' models_arg \<or> models_arg = ''all''
                 then train_content_optimizer lib t1 training_data else t1)
       in Inr (results t2))"

definition main :: "pylib \<Rightarrow> string \<Rightarrow> string \<Rightarrow> results outcome" where
  "main lib data models_arg =
     (case pipeline lib data models_arg of
        Inr r \<Rightarrow> Printed r
      | Inl e \<Rightarrow> Printed (fallback_results e))"

subsection \<open>A sample run\<close>

text \<open>
  A stand-in for the library, used to run the pipeline on a concrete document: the
  parser returns the document, the classifier reports accuracy 0.9 on three classes, and
  nothing raises.
\<close>

definition sample_lib :: "json \<Rightarrow> pylib" where
  "sample_lib doc =
     \<lparr>json_loads = (\<lambda>s. Inr doc), archetype_fit = (\<lambda>fs ls. Inr (9 / 10)),
      np_unique_len = (\<lambda>ls. Inr 3), str_len = (\<lambda>v. 2), np_random = (\<lambda>i. 1 / 2),
      content_fit = (\<lambda>X y. None)\<rparr>"

definition sample_neurons :: json where
  "sample_neurons =
     JDict [(''metadata'',
             JList [JDict [(''vertical'', JStr ''finance''), (''healthScore'', JInt 90),
                           (''performance'', JDict [(''clicks'', JInt 0),
                                                   (''conversions'', JInt 3)])],
                    JDict [(''vertical'', JStr ''health'')]]),
            (''features'', JList []), (''labels'', JList [])]"

section \<open>The classifier scripts (scripts/ml)\<close>

subsection \<open>Records, data frames and files\<close>

text \<open>
  A record of the data is a JSON object. A cell of a data frame is a JSON value, or
  \<open>None\<close> where pandas fills in NaN because the record has no such key.
\<close>

type_synonym py_record = "(string \<times> json) list"
type_synonym cell = "json option"
type_synonym row = "cell list"

text \<open>
  \<open>pd.DataFrame(records)\<close> on a list of dicts: the columns are the keys that occur in
  any record; a record without a key gets NaN in that column.
\<close>

record dataframe =
  df_columns :: "string list"
  df_records :: "py_record list"

definition DataFrame :: "py_record list \<Rightarrow> dataframe" where
  "DataFrame recs = \<lparr>df_columns = remdups (concat (map (map fst) recs)), df_records = recs\<rparr>"

text \<open>\<open>df[names]\<close> with a list of names, and \<open>df[name]\<close>: an unknown column raises.\<close>

definition select_columns :: "dataframe \<Rightarrow> string list \<Rightarrow> exn + row list" where
  "select_columns df names =
     (if \<forall>name \<in> set names. name \<in> set (df_columns df)
      then Inr (map (\<lambda>r. map (map_of r) names) (df_records df))
      else Inl KeyError)"

definition select_column :: "dataframe \<Rightarrow> string \<Rightarrow> exn + cell list" where
  "select_column df name =
     (if name \<in> set (df_columns df)
      then Inr (map (\<lambda>r. map_of r name) (df_records df))
      else Inl KeyError)"

text \<open>
  A fitted estimator, as far as the scripts look at it: \<open>predict\<close>, \<open>predict_proba\<close>
  when the class has it, and \<open>feature_importances_\<close> when the estimator exposes them.
\<close>

record model =
  predict_fn :: "row list \<Rightarrow> exn + cell list"
  predict_proba_fn :: "(row list \<Rightarrow> exn + rat list list) option"
  feature_importances :: "rat list option"

datatype estimator_class =
    RandomForestClassifier
  | GradientBoostingClassifier
  | LogisticRegression
  | MLPClassifier

text \<open>An estimator before fitting: its class and the keyword arguments it was built with.\<close>

record estimator =
  est_class :: estimator_class
  est_params :: "(string \<times> json) list"

record config =
  features :: "string list"
  targetVariable :: string
  algorithm :: string

record training_file =
  file_data :: "py_record list"
  file_config :: config

text \<open>
  What a path can hold: the JSON document of a training run, the JSON list of records of
  an evaluation, a model written by \<open>joblib.dump\<close>, or something else. JSON documents of
  another shape are outside the model.
\<close>

datatype stored =
    TrainingData training_file
  | EvalData "py_record list"
  | Joblib model
  | OtherFile

type_synonym filesystem = "string \<Rightarrow> stored option"

text \<open>\<open>sys.argv[i]\<close>.\<close>

definition argv_at :: "string list \<Rightarrow> nat \<Rightarrow> exn + string" where
  "argv_at argv i = (if i < length argv then Inr (argv ! i) else Inl IndexError)"

text \<open>
  \<open>open(path)\<close>, \<open>json.load\<close> and the subscripts \<open>data['data']\<close>, \<open>data['config']\<close>. A
  JSON list has no string subscripts; a file that is not JSON fails to parse.
\<close>

definition load_training :: "filesystem \<Rightarrow> string \<Rightarrow> exn + training_file" where
  "load_training fs path =
     (case fs path of
        None \<Rightarrow> Inl FileNotFoundError
      | Some (TrainingData d) \<Rightarrow> Inr d
      | Some (EvalData recs) \<Rightarrow> Inl TypeError
      | Some _ \<Rightarrow> Inl ValueError)"

text \<open>
  \<open>open(path)\<close> and \<open>json.load\<close> in the evaluation script, and \<open>pd.DataFrame\<close> on the
  document read; pandas refuses the two-key document of a training run.
\<close>

definition open_json :: "filesystem \<Rightarrow> string \<Rightarrow> exn + stored" where
  "open_json fs path =
     (case fs path of
        None \<Rightarrow> Inl FileNotFoundError
      | Some (TrainingData d) \<Rightarrow> Inr (TrainingData d)
      | Some (EvalData recs) \<Rightarrow> Inr (EvalData recs)
      | Some _ \<Rightarrow> Inl ValueError)"

definition frame_of_json :: "stored \<Rightarrow> exn + dataframe" where
  "frame_of_json doc =
     (case doc of EvalData recs \<Rightarrow> Inr (DataFrame recs) | _ \<Rightarrow> Inl ValueError)"

text \<open>\<open>joblib.load(path)\<close>: the Model Store is the file system.\<close>

definition joblib_load :: "filesystem \<Rightarrow> string \<Rightarrow> exn + model" where
  "joblib_load fs path =
     (case fs path of
        None \<Rightarrow> Inl FileNotFoundError
      | Some (Joblib m) \<Rightarrow> Inr m
      | Some _ \<Rightarrow> Inl UnpicklingError)"

text \<open>\<open>joblib.dump(model, path)\<close> overwrites the path; a failing write is not modelled.\<close>

definition joblib_dump :: "filesystem \<Rightarrow> string \<Rightarrow> model \<Rightarrow> filesystem" where
  "joblib_dump fs path m = fs(path \<mapsto> Joblib m)"

subsection \<open>The modelling library\<close>

text \<open>
  A random generator is either seeded with an integer, and then a function of the seed,
  or the process-wide generator, which no script seeds: its state \<open>g\<close> at the start of the
  process differs from run to run. \<open>check_random_state\<close> is the library's rule for a
  \<open>random_state\<close> argument: an integer seeds a fresh generator, anything else (the
  default \<open>None\<close>) means the process-wide one.
\<close>

datatype rng = Seeded int | Global nat

definition check_random_state :: "json option \<Rightarrow> nat \<Rightarrow> rng" where
  "check_random_state random_state g =
     (case random_state of Some (JInt s) \<Rightarrow> Seeded s | _ \<Rightarrow> Global g)"

text \<open>
  The library is a parameter of the scripts:
  \<^item> \<open>loads_object\<close>, \<open>loads_names\<close>: \<open>json.loads\<close> of a command-line argument that holds
    a JSON object, or a JSON array of strings;
  \<^item> \<open>init_params\<close>: the keyword arguments the constructor of a class accepts;
  \<^item> \<open>split_indices\<close>: the row numbers of the train and of the test partition that
    \<open>train_test_split(test_size=0.2)\<close> draws for a number of rows;
  \<^item> \<open>fit\<close>: fitting an estimator on rows and labels;
  \<^item> \<open>cv_scores\<close>: the five scores of \<open>cross_val_score(cv=5)\<close>;
  \<^item> \<open>targets_rejected\<close>: the validation of two label arrays by the metric functions;
  \<^item> \<open>confusion\<close>: \<open>confusion_matrix(...).tolist()\<close>.
\<close>

record sklearn =
  loads_object :: "string \<Rightarrow> exn + py_record"
  loads_names :: "string \<Rightarrow> exn + string list"
  init_params :: "estimator_class \<Rightarrow> string list"
  split_indices :: "rng \<Rightarrow> nat \<Rightarrow> exn + (nat list \<times> nat list)"
  fit :: "estimator \<Rightarrow> rng \<Rightarrow> row list \<Rightarrow> cell list \<Rightarrow> exn + model"
  cv_scores :: "estimator \<Rightarrow> rng \<Rightarrow> row list \<Rightarrow> cell list \<Rightarrow> exn + rat list"
  targets_rejected :: "cell list \<Rightarrow> cell list \<Rightarrow> exn option"
  confusion :: "cell list \<Rightarrow> cell list \<Rightarrow> nat list list"

text \<open>
  \<open>Class(**kwargs)\<close>: Python raises \<open>TypeError\<close> for a keyword the constructor does not
  have; the constructors themselves do not look at the values.
\<close>

definition construct :: "sklearn \<Rightarrow> estimator_class \<Rightarrow> (string \<times> json) list \<Rightarrow> exn + estimator" where
  "construct lib c kwargs =
     (if \<forall>k \<in> set (map fst kwargs). k \<in> set (init_params lib c)
      then Inr \<lparr>est_class = c, est_params = kwargs\<rparr>
      else Inl TypeError)"

definition estimator_rng :: "estimator \<Rightarrow> nat \<Rightarrow> rng" where
  "estimator_rng est g = check_random_state (map_of (est_params est) ''random_state'') g"

text \<open>
  \<open>train_test_split(X, y, test_size=0.2, random_state=...)\<close> on \<open>n\<close> rows. The library
  raises when a partition would be empty.
\<close>

definition train_test_split :: "sklearn \<Rightarrow> json option \<Rightarrow> nat \<Rightarrow> nat \<Rightarrow> exn + (nat list \<times> nat list)" where
  "train_test_split lib random_state g n =
     (case split_indices lib (check_random_state random_state g) n of
        Inl e \<Rightarrow> Inl e
      | Inr (tr, te) \<Rightarrow> if tr = [] \<or> te = [] then Inl ValueError else Inr (tr, te))"

text \<open>
  The rows of a partition. The library returns row numbers below the number of rows; a
  number outside the frame would select nothing.
\<close>

definition rows_at :: "'a list \<Rightarrow> nat list \<Rightarrow> 'a list" where
  "rows_at xs idx = map (\<lambda>i. xs ! i) (filter (\<lambda>i. i < length xs) idx)"

subsection \<open>The classification metrics\<close>

text \<open>
  The metric functions of the library, by their documented definitions and in exact
  arithmetic. They raise when the two arrays differ in length or hold NaN, and when the
  library rejects the labels for a reason of its own. With \<open>average='weighted'\<close> the
  score of each label is weighted by the number of true instances of the label, and a
  score whose denominator is zero counts as 0. The scripts reach them with at least one
  label: the split has no empty partition, and a frame without rows has no \<open>target\<close>
  column.
\<close>

definition nan_cell :: "cell \<Rightarrow> bool" where
  "nan_cell c \<longleftrightarrow> c = None \<or> c = Some (JFloat NaN)"

definition check_targets :: "sklearn \<Rightarrow> cell list \<Rightarrow> cell list \<Rightarrow> exn option" where
  "check_targets lib y_true y_pred =
     (if length y_true \<noteq> length y_pred then Some ValueError
      else if list_ex nan_cell y_true \<or> list_ex nan_cell y_pred then Some ValueError
      else targets_rejected lib y_true y_pred)"

definition present_labels :: "cell list \<Rightarrow> cell list \<Rightarrow> cell list" where
  "present_labels y_true y_pred = remdups (y_true @ y_pred)"

definition true_positives :: "cell \<Rightarrow> cell list \<Rightarrow> cell list \<Rightarrow> nat" where
  "true_positives c y_true y_pred =
     length (filter (\<lambda>tp. fst tp = c \<and> snd tp = c) (zip y_true y_pred))"

definition class_precision :: "cell list \<Rightarrow> cell list \<Rightarrow> cell \<Rightarrow> rat" where
  "class_precision y_true y_pred c =
     (if count_list y_pred c = 0 then 0
      else of_nat (true_positives c y_true y_pred) / of_nat (count_list y_pred c))"

definition class_recall :: "cell list \<Rightarrow> cell list \<Rightarrow> cell \<Rightarrow> rat" where
  "class_recall y_true y_pred c =
     (if count_list y_true c = 0 then 0
      else of_nat (true_positives c y_true y_pred) / of_nat (count_list y_true c))"

definition class_f1 :: "cell list \<Rightarrow> cell list \<Rightarrow> cell \<Rightarrow> rat" where
  "class_f1 y_true y_pred c =
     (if count_list y_true c + count_list y_pred c = 0 then 0
      else 2 * of_nat (true_positives c y_true y_pred)
           / of_nat (count_list y_true c + count_list y_pred c))"

definition weighted_average :: "(cell \<Rightarrow> rat) \<Rightarrow> cell list \<Rightarrow> cell list \<Rightarrow> rat" where
  "weighted_average score y_true y_pred =
     (let labels = present_labels y_true y_pred;
          total = sum_list (map (\<lambda>c. of_nat (count_list y_true c)) labels)
      in if total = 0 then 0
         else sum_list (map (\<lambda>c. of_nat (count_list y_true c) * score c) labels) / total)"

definition accuracy_score :: "sklearn \<Rightarrow> cell list \<Rightarrow> cell list \<Rightarrow> exn + rat" where
  "accuracy_score lib y_true y_pred =
     (case check_targets lib y_true y_pred of
        Some e \<Rightarrow> Inl e
      | None \<Rightarrow> Inr (of_nat (length (filter (\<lambda>tp. fst tp = snd tp) (zip y_true y_pred)))
                     / of_nat (length y_true)))"

definition precision_score :: "sklearn \<Rightarrow> cell list \<Rightarrow> cell list \<Rightarrow> exn + rat" where
  "precision_score lib y_true y_pred =
     (case check_targets lib y_true y_pred of
        Some e \<Rightarrow> Inl e
      | None \<Rightarrow> Inr (weighted_average (class_precision y_true y_pred) y_true y_pred))"

definition recall_score :: "sklearn \<Rightarrow> cell list \<Rightarrow> cell list \<Rightarrow> exn + rat" where
  "recall_score lib y_true y_pred =
     (case check_targets lib y_true y_pred of
        Some e \<Rightarrow> Inl e
      | None \<Rightarrow> Inr (weighted_average (class_recall y_true y_pred) y_true y_pred))"

definition f1_score :: "sklearn \<Rightarrow> cell list \<Rightarrow> cell list \<Rightarrow> exn + rat" where
  "f1_score lib y_true y_pred =
     (case check_targets lib y_true y_pred of
        Some e \<Rightarrow> Inl e
      | None \<Rightarrow> Inr (weighted_average (class_f1 y_true y_pred) y_true y_pred))"

text \<open>\<open>cv_scores.mean()\<close>, of the five scores.\<close>

definition mean :: "rat list \<Rightarrow> rat" where
  "mean xs = sum_list xs / of_nat (length xs)"

text \<open>
  \<open>dict(zip(names, model.feature_importances_))\<close> when the model has the attribute, the
  empty dict otherwise. \<open>zip\<close> stops at the shorter sequence, and a later pair replaces
  an earlier one with the same name.
\<close>

definition feature_importance_of :: "model \<Rightarrow> string list \<Rightarrow> (string \<Rightarrow> rat option)" where
  "feature_importance_of m names =
     (case feature_importances m of
        Some ws \<Rightarrow> map_of (rev (zip names ws))
      | None \<Rightarrow> Map.empty)"

subsection \<open>train\_model.py\<close>

text \<open>
  The JSON objects the three scripts print. The \<open>explanation\<close> string of \<open>predict\<close> is a
  rendering of the prediction and of the confidence and is left out.
\<close>

record importance_report =
  featureImportance :: "string \<Rightarrow> rat option"

record eval_results = importance_report +
  accuracy :: rat
  precision :: rat
  recall :: rat
  f1Score :: rat
  confusionMatrix :: "nat list list"

record train_results = eval_results +
  crossValidationScore :: rat


text \<open>
  Lines 35 to 44: the estimator named by \<open>config['algorithm']\<close>, built with the
  hyperparameters; any other name gives a forest built without arguments.
\<close>

definition init_model :: "sklearn \<Rightarrow> string \<Rightarrow> py_record \<Rightarrow> exn + estimator" where
  "init_model lib alg hyperparameters =
     (if alg = ''random_forest'' then construct lib RandomForestClassifier hyperparameters
      else if alg = ''gradient_boosting''
        then construct lib GradientBoostingClassifier hyperparameters
      else if alg = ''logistic_regression'' then construct lib LogisticRegression hyperparameters
      else if alg = ''neural_network'' then construct lib MLPClassifier hyperparameters
      else construct lib RandomForestClassifier [])"

text \<open>Lines 15 to 27: the configuration, the hyperparameters, the feature matrix and the target.\<close>

definition load_features ::
  "sklearn \<Rightarrow> filesystem \<Rightarrow> string list
     \<Rightarrow> exn + (config \<times> py_record \<times> row list \<times> cell list)" where
  "load_features lib fs argv =
     and_then (argv_at argv 1) (\<lambda>path.
     and_then (load_training fs path) (\<lambda>d.
     and_then (argv_at argv 3) (\<lambda>arg3.
     and_then (loads_object lib arg3) (\<lambda>hyperparameters.
       let training_data = file_data d;
           cfg = file_config d;
           df = DataFrame training_data
       in and_then (select_columns df (features cfg)) (\<lambda>X.
          and_then (select_column df (targetVariable cfg)) (\<lambda>y.
          Inr (cfg, hyperparameters, X, y)))))))"

text \<open>Lines 30 to 32: the four partitions.\<close>

definition split_data ::
  "sklearn \<Rightarrow> nat \<Rightarrow> row list \<Rightarrow> cell list
     \<Rightarrow> exn + (row list \<times> row list \<times> cell list \<times> cell list)" where
  "split_data lib g X y =
     and_then (train_test_split lib (Some (JInt 42)) g (length X)) (\<lambda>(tr, te).
     Inr (rows_at X tr, rows_at X te, rows_at y tr, rows_at y te))"

text \<open>
  Lines 47 to 81: fitting the estimator on the training partition, the metrics on the
  test partition, the cross-validation on the training partition, the feature
  importances, and the model written to \<open>sys.argv[2]\<close>. \<open>g\<close> is the state of the
  process-wide random generator at the start of the run; the result is the printed
  object and the file system after \<open>joblib.dump\<close>.
\<close>

definition fit_and_report ::
  "sklearn \<Rightarrow> nat \<Rightarrow> filesystem \<Rightarrow> string list \<Rightarrow> config \<Rightarrow> estimator
     \<Rightarrow> row list \<Rightarrow> row list \<Rightarrow> cell list \<Rightarrow> cell list
     \<Rightarrow> exn + (train_results \<times> filesystem)" where
  "fit_and_report lib g fs argv cfg est X_train X_test y_train y_test =
     and_then (fit lib est (estimator_rng est g) X_train y_train) (\<lambda>m.
     and_then (predict_fn m X_test) (\<lambda>y_pred.
     and_then (accuracy_score lib y_test y_pred) (\<lambda>acc.
     and_then (precision_score lib y_test y_pred) (\<lambda>prec.
     and_then (recall_score lib y_test y_pred) (\<lambda>rec.
     and_then (f1_score lib y_test y_pred) (\<lambda>f1.
     and_then (cv_scores lib est (estimator_rng est g) X_train y_train) (\<lambda>cv.
       let feature_importance = feature_importance_of m (features cfg)
       in and_then (argv_at argv 2) (\<lambda>out.
          Inr (\<lparr>featureImportance = feature_importance,
                accuracy = acc, precision = prec, recall = rec, f1Score = f1,
                confusionMatrix = confusion lib y_test y_pred,
                crossValidationScore = mean cv\<rparr>,
               joblib_dump fs out m)))))))))"

text \<open>The whole script.\<close>

definition train_model ::
  "sklearn \<Rightarrow> nat \<Rightarrow> filesystem \<Rightarrow> string list \<Rightarrow> exn + (train_results \<times> filesystem)" where
  "train_model lib g fs argv =
     and_then (load_features lib fs argv) (\<lambda>(cfg, hyperparameters, X, y).
     and_then (split_data lib g X y) (\<lambda>(X_train, X_test, y_train, y_test).
     and_then (init_model lib (algorithm cfg) hyperparameters) (\<lambda>est.
     fit_and_report lib g fs argv cfg est X_train X_test y_train y_test)))"

subsection \<open>evaluate\_model.py\<close>

definition evaluate_model ::
  "sklearn \<Rightarrow> filesystem \<Rightarrow> string list \<Rightarrow> exn + eval_results" where
  "evaluate_model lib fs argv =
     and_then (argv_at argv 1) (\<lambda>model_path.
     and_then (joblib_load fs model_path) (\<lambda>m.
     and_then (argv_at argv 2) (\<lambda>data_path.
     and_then (open_json fs data_path) (\<lambda>eval_data.
     and_then (argv_at argv 3) (\<lambda>arg3.
     and_then (loads_names lib arg3) (\<lambda>feature_names.
     and_then (frame_of_json eval_data) (\<lambda>df.
     and_then (select_columns df feature_names) (\<lambda>X.
     and_then (select_column df ''target'') (\<lambda>y.
     and_then (predict_fn m X) (\<lambda>y_pred.
     and_then (accuracy_score lib y y_pred) (\<lambda>acc.
     and_then (precision_score lib y y_pred) (\<lambda>prec.
     and_then (recall_score lib y y_pred) (\<lambda>rec.
     and_then (f1_score lib y y_pred) (\<lambda>f1.
       Inr \<lparr>featureImportance = feature_importance_of m feature_names,
            accuracy = acc, precision = prec, recall = rec, f1Score = f1,
            confusionMatrix = confusion lib y y_pred\<rparr>))))))))))))))"

subsection \<open>predict.py\<close>





subsection \<open>The scripts as processes\<close>

text \<open>
  None of the three scripts has a handler: \<open>__main__\<close> calls the function, and an
  exception leaves the process as a traceback.
\<close>

definition run_script :: "exn + 'a \<Rightarrow> 'a outcome" where
  "run_script r = (case r of Inl e \<Rightarrow> Uncaught e | Inr v \<Rightarrow> Printed v)"

definition train_model_script ::
  "sklearn \<Rightarrow> nat \<Rightarrow> filesystem \<Rightarrow> string list \<Rightarrow> train_results outcome" where
  "train_model_script lib g fs argv =
     run_script (case train_model lib g fs argv of Inl e \<Rightarrow> Inl e | Inr (r, fs') \<Rightarrow> Inr r)"

definition evaluate_model_script ::
  "sklearn \<Rightarrow> filesystem \<Rightarrow> string list \<Rightarrow> eval_results outcome" where
  "evaluate_model_script lib fs argv = run_script (evaluate_model lib fs argv)"


subsection \<open>A sample library and sample files\<close>

text \<open>
  A stand-in for the library, to run the scripts on concrete files. Every fit gives the
  same model, which predicts class 1 with probability 3/4. The split puts the first
  fifth of the rows into the test partition, and the cross-validation reports the scores
  1, 1, 1, 1 and 0. Nothing in the stand-in looks at a random generator.
\<close>

definition sample_model :: model where
  "sample_model =
     \<lparr>predict_fn = (\<lambda>rows. Inr (map (\<lambda>r. Some (JInt 1)) rows)),
      predict_proba_fn = Some (\<lambda>rows. Inr (map (\<lambda>r. [1 / 4, 3 / 4]) rows)),
      feature_importances = Some [3 / 5, 2 / 5]\<rparr>"

definition sample_sklearn :: sklearn where
  "sample_sklearn =
     \<lparr>loads_object = (\<lambda>s. Inr []),
      loads_names = (\<lambda>s. Inr [''x1'', ''x2'']),
      init_params = (\<lambda>c. [''n_estimators'', ''random_state'']),
      split_indices = (\<lambda>r n. Inr (drop (n div 5) [0..<n], take (n div 5) [0..<n])),
      fit = (\<lambda>est r X y. Inr sample_model),
      cv_scores = (\<lambda>est r X y. Inr [1, 1, 1, 1, 0]),
      targets_rejected = (\<lambda>y_true y_pred. None),
      confusion = (\<lambda>y_true y_pred. [])\<rparr>"

definition sample_record :: "int \<Rightarrow> int \<Rightarrow> int \<Rightarrow> py_record" where
  "sample_record a b t = [(''x1'', JInt a), (''x2'', JInt b), (''target'', JInt t)]"

definition sample_records :: "py_record list" where
  "sample_records =
     [sample_record 1 0 1, sample_record 0 1 0, sample_record 1 1 1, sample_record 0 0 0,
      sample_record 2 0 1, sample_record 0 2 0, sample_record 2 1 1, sample_record 1 2 0,
      sample_record 3 0 1, sample_record 0 3 0]"

definition sample_config :: "string \<Rightarrow> config" where
  "sample_config alg =
     \<lparr>features = [''x1'', ''x2''], targetVariable = ''target'', algorithm = alg\<rparr>"

definition sample_fs :: "string \<Rightarrow> filesystem" where
  "sample_fs alg =
     [''train.json'' \<mapsto> TrainingData \<lparr>file_data = sample_records,
                                        file_config = sample_config alg\<rparr>,
      ''eval.json'' \<mapsto> EvalData sample_records,
      ''model.joblib'' \<mapsto> Joblib sample_model]"

definition train_argv :: "string list" where
  "train_argv = [''train_model.py'', ''train.json'', ''out.joblib'', ''{}'']"

definition eval_argv :: "string list" where
  "eval_argv = [''evaluate_model.py'', ''model.joblib'', ''eval.json'', ''[x1, x2]'']"


text \<open>
  Two records, the second without the feature \<open>x2\<close>; a training file whose
  configuration asks for a feature \<open>x3\<close> that no record has; and evaluation data
  without the \<open>target\<close> key.
\<close>

definition ragged_records :: "py_record list" where
  "ragged_records = [sample_record 1 0 1, [(''x1'', JInt 0), (''target'', JInt 0)]]"

definition ragged_fs :: filesystem where
  "ragged_fs =
     [''train.json'' \<mapsto>
        TrainingData \<lparr>file_data = ragged_records,
                      file_config = sample_config ''random_forest''\<rparr>]"

definition incomplete_fs :: filesystem where
  "incomplete_fs =
     [''train.json'' \<mapsto>
        TrainingData \<lparr>file_data = sample_records,
                      file_config = \<lparr>features = [''x1'', ''x3''], targetVariable = ''target'',
                                     algorithm = ''random_forest''\<rparr>\<rparr>,
      ''eval.json'' \<mapsto> EvalData [[(''x1'', JInt 1), (''x2'', JInt 0)]],
      ''model.joblib'' \<mapsto> Joblib sample_model]"



definition within_caps :: "results \<Rightarrow> bool" where
  "within_caps r \<longleftrightarrow> archetype_insights r \<le> 8 \<and> cross_neuron_learnings r \<le> 10
     \<and> improvement_opportunities r \<le> 12 \<and> content_optimizations r \<le> 15"


text \<open>The feature matrix and the target column of the sample records.\<close>

definition sample_X :: "row list" where
  "sample_X = map (map (\<lambda>i. Some (JInt i)))
     [[1, 0], [0, 1], [1, 1], [0, 0], [2, 0], [0, 2], [2, 1], [1, 2], [3, 0], [0, 3]]"

definition sample_y :: "cell list" where
  "sample_y = map (\<lambda>i. Some (JInt i)) [1, 0, 1, 0, 1, 0, 1, 0, 1, 0]"

section \<open>Properties of the training pipeline\<close>

subsection \<open>The summary counters stay within their caps\<close>

lemma within_caps_init: "within_caps (results init_trainer)"
  by (simp add: within_caps_def init_trainer_def)

lemma within_caps_discover:
  "within_caps (results t) \<Longrightarrow> within_caps (results (discover_patterns t td))"
  by (auto simp: within_caps_def discover_patterns_def discover_patterns_body_def
        and_then_def Let_def split: sum.splits prod.splits)

lemma within_caps_archetype:
  "within_caps (results t) \<Longrightarrow> within_caps (results (train_archetype_classifier lib t td))"
  by (auto simp: within_caps_def train_archetype_classifier_def Let_def
        split: sum.splits prod.splits)

lemma within_caps_content:
  "within_caps (results t) \<Longrightarrow> within_caps (results (train_content_optimizer lib t td))"
  by (simp add: within_caps_def train_content_optimizer_def Let_def
        split: sum.splits option.splits)

lemma within_caps_fallback: "within_caps (fallback_results e)"
  by (simp add: within_caps_def fallback_results_def)

lemma within_caps_pipeline: "pipeline lib data m = Inr r \<Longrightarrow> within_caps r"
  unfolding pipeline_def and_then_def Let_def
  by (auto split: sum.splits if_splits
      intro!: within_caps_content within_caps_archetype within_caps_discover within_caps_init)

lemma sample_run:
  "main (sample_lib sample_neurons) [] ''all'' =
     Printed \<lparr>patterns_discovered = 6, cross_neuron_learnings = 4,
              improvement_opportunities = 2, archetype_insights = 2,
              content_optimizations = 3, models_updated = [], accuracy = 0,
              error = None\<rparr>"
  by (simp add: main_def pipeline_def sample_lib_def sample_neurons_def and_then_def
      discover_patterns_def discover_patterns_body_def neuron_patterns_def neuron_vertical_def
      conversion_rate_def clicks_denominator_def py_max1_def py_truediv_def py_gt_def
      num_lt_def threshold_005_def overflows_def
      init_trainer_def train_archetype_classifier_def train_content_optimizer_def
      extract_content_features_def content_feature_of_def py_floordiv10_def Let_def)

text \<open>
  C9. Every result object that \<open>main\<close> prints has its summary counters within the fixed
  caps: \<open>archetype_insights\<close> at most 8, \<open>cross_neuron_learnings\<close> at most 10,
  \<open>improvement_opportunities\<close> at most 12 and \<open>content_optimizations\<close> at most 15. This
  holds for the objects without an \<open>error\<close> key, whatever the library returns or raises
  on the way, and for the fallback object as well.
\<close>

theorem summary_counters_capped:
  "main lib data models_arg = Printed r \<Longrightarrow>
     archetype_insights r \<le> 8 \<and> cross_neuron_learnings r \<le> 10
     \<and> improvement_opportunities r \<le> 12 \<and> content_optimizations r \<le> 15"
  using within_caps_pipeline[of lib data models_arg] within_caps_fallback
  by (auto simp: main_def within_caps_def split: sum.splits)

theorem summary_counters_capped_witness:
  "main (sample_lib sample_neurons) [] ''all'' =
     Printed \<lparr>patterns_discovered = 6, cross_neuron_learnings = 4,
              improvement_opportunities = 2, archetype_insights = 2,
              content_optimizations = 3, models_updated = [], accuracy = 0,
              error = None\<rparr>
   \<and> (2::nat) \<le> 8 \<and> (4::nat) \<le> 10 \<and> (2::nat) \<le> 12 \<and> (3::nat) \<le> 15"
  using summary_counters_capped[OF sample_run] sample_run by simp

subsection \<open>The conversion rate never divides by zero\<close>

lemma py_max1_not_zero: "py_max1 v = Inr d \<Longrightarrow> \<not> num_zero d"
proof -
  assume h: "py_max1 v = Inr d"
  then obtain x where x: "num_of v = Some x" "d = (if num_lt x (PInt 1) then PInt 1 else x)"
    by (auto simp: py_max1_def split: option.splits)
  show ?thesis
  proof (cases x)
    case (PInt i)
    with x show ?thesis by (auto simp: num_zero_def num_lt_def)
  next
    case (PFloat f)
    with x show ?thesis by (cases f) (auto simp: num_zero_def num_lt_def)
  qed
qed

lemma py_max1_ge: "py_max1 v = Inr d \<Longrightarrow> d = PFloat NaN \<or> num_le (PInt 1) d"
proof -
  assume h: "py_max1 v = Inr d"
  then obtain x where x: "num_of v = Some x" "d = (if num_lt x (PInt 1) then PInt 1 else x)"
    by (auto simp: py_max1_def split: option.splits)
  show ?thesis
  proof (cases x)
    case (PInt i)
    with x show ?thesis by (auto simp: num_le_def float_le_def num_lt_def)
  next
    case (PFloat f)
    with x show ?thesis by (cases f) (auto simp: num_le_def float_le_def num_lt_def)
  qed
qed

lemma py_max1_nan: "py_max1 v = Inr (PFloat NaN) \<Longrightarrow> v = JFloat NaN"
proof -
  assume h: "py_max1 v = Inr (PFloat NaN)"
  then obtain x where x: "num_of v = Some x"
    "PFloat NaN = (if num_lt x (PInt 1) then PInt 1 else x)"
    by (auto simp: py_max1_def split: option.splits)
  then have "x = PFloat NaN" by (auto split: if_splits)
  with x(1) show ?thesis by (cases v) (auto split: if_splits)
qed

lemma clicks_denominator_Inr:
  "clicks_denominator perf = Inr d \<longleftrightarrow>
     (\<exists>kvs. perf = JDict kvs
        \<and> py_max1 (case map_of kvs ''clicks'' of None \<Rightarrow> JInt 1 | Some v \<Rightarrow> v) = Inr d)"
  by (cases perf) (auto simp: clicks_denominator_def and_then_def)

lemma clicks_denominator_not_zero: "clicks_denominator perf = Inr d \<Longrightarrow> \<not> num_zero d"
  by (auto simp: clicks_denominator_Inr dest: py_max1_not_zero)

lemma clicks_denominator_ge:
  "clicks_denominator perf = Inr d \<Longrightarrow> d = PFloat NaN \<or> num_le (PInt 1) d"
  by (auto simp: clicks_denominator_Inr dest: py_max1_ge)

lemma clicks_denominator_no_nan:
  assumes "map_of kvs ''clicks'' \<noteq> Some (JFloat NaN)" "clicks_denominator (JDict kvs) = Inr d"
  shows "num_le (PInt 1) d"
proof -
  from assms(2) have m:
    "py_max1 (case map_of kvs ''clicks'' of None \<Rightarrow> JInt 1 | Some v \<Rightarrow> v) = Inr d"
    by (simp add: clicks_denominator_Inr)
  have "d \<noteq> PFloat NaN"
  proof
    assume "d = PFloat NaN"
    with m have "(case map_of kvs ''clicks'' of None \<Rightarrow> JInt 1 | Some v \<Rightarrow> v) = JFloat NaN"
      by (simp add: py_max1_nan)
    with assms(1) show False by (auto split: option.splits)
  qed
  with py_max1_ge[OF m] show ?thesis by simp
qed

lemma py_get_not_zd: "py_get v k dflt \<noteq> Inl ZeroDivisionError"
  by (cases v) auto

lemma py_max1_not_zd: "py_max1 v \<noteq> Inl ZeroDivisionError"
  by (auto simp: py_max1_def split: option.splits)

lemma py_gt_not_zd: "py_gt v c \<noteq> Inl ZeroDivisionError"
  by (auto simp: py_gt_def split: option.splits)

lemma py_hash_not_zd: "py_hash v \<noteq> Inl ZeroDivisionError"
  by (cases v) (auto split: option.splits)

lemma getitem_not_zd: "getitem v k \<noteq> Inl ZeroDivisionError"
  by (cases v) (auto split: option.splits)

lemma py_iter_not_zd: "py_iter v \<noteq> Inl ZeroDivisionError"
  by (cases v) auto

lemma and_then_not_zd:
  "m \<noteq> Inl ZeroDivisionError \<Longrightarrow> (\<And>v. m = Inr v \<Longrightarrow> f v \<noteq> Inl ZeroDivisionError)
     \<Longrightarrow> and_then m f \<noteq> Inl ZeroDivisionError"
  by (cases m) (auto simp: and_then_def)

lemma for_each_not_zd:
  "(\<And>x. f x \<noteq> Inl ZeroDivisionError) \<Longrightarrow> for_each f xs \<noteq> Inl ZeroDivisionError"
  by (induction xs) (auto split: sum.splits)

lemma clicks_denominator_not_zd: "clicks_denominator perf \<noteq> Inl ZeroDivisionError"
  unfolding clicks_denominator_def
  by (intro and_then_not_zd py_get_not_zd py_max1_not_zd)

lemma true_divide_not_zd: "\<not> num_zero d \<Longrightarrow> true_divide x d \<noteq> Inl ZeroDivisionError"
proof (cases x)
  case (PInt a)
  assume "\<not> num_zero d"
  with PInt show ?thesis
    by (cases d) (auto simp: num_zero_def int_to_float_def)
next
  case (PFloat f)
  assume "\<not> num_zero d"
  with PFloat show ?thesis
    by (cases d) (auto simp: num_zero_def int_to_float_def)
qed

lemma py_truediv_not_zd: "\<not> num_zero d \<Longrightarrow> py_truediv v d \<noteq> Inl ZeroDivisionError"
  by (auto simp: py_truediv_def true_divide_not_zd split: option.splits)

lemma conversion_rate_not_zd: "conversion_rate perf \<noteq> Inl ZeroDivisionError"
  unfolding conversion_rate_def
  by (intro and_then_not_zd py_get_not_zd clicks_denominator_not_zd py_truediv_not_zd
        clicks_denominator_not_zero)

lemma neuron_patterns_not_zd: "neuron_patterns n \<noteq> Inl ZeroDivisionError"
  unfolding neuron_patterns_def
  by (intro and_then_not_zd py_get_not_zd conversion_rate_not_zd py_gt_not_zd) simp

lemma neuron_vertical_not_zd: "neuron_vertical n \<noteq> Inl ZeroDivisionError"
  unfolding neuron_vertical_def
  by (intro and_then_not_zd py_get_not_zd py_hash_not_zd)

lemma discover_patterns_body_not_zd:
  "discover_patterns_body training_data \<noteq> Inl ZeroDivisionError"
  unfolding discover_patterns_body_def
  by (intro and_then_not_zd getitem_not_zd py_iter_not_zd for_each_not_zd
        neuron_patterns_not_zd neuron_vertical_not_zd) (simp add: Let_def)

text \<open>
  C10, as stated, fails: the parser accepts the literal \<open>NaN\<close>, and for a \<open>clicks\<close> value
  of NaN the comparison in \<open>max(perf.get('clicks', 1), 1)\<close> is false, so the denominator
  is NaN, which is not at least 1.
\<close>

theorem nan_clicks_counterexample:
  "clicks_denominator (JDict [(''clicks'', JFloat NaN), (''conversions'', JInt 3)])
     = Inr (PFloat NaN)
   \<and> \<not> num_le (PInt 1) (PFloat NaN)
   \<and> conversion_rate (JDict [(''clicks'', JFloat NaN), (''conversions'', JInt 3)]) = Inr NaN"
  by (simp add: clicks_denominator_def conversion_rate_def and_then_def py_max1_def
        py_truediv_def num_lt_def num_le_def float_le_def int_to_float_def overflows_def)

text \<open>
  C10, amended. In pattern discovery the conversion-rate computation never divides by
  zero: the denominator \<open>max(perf.get('clicks', 1), 1)\<close> is never zero, and the division
  of line 127 never raises \<open>ZeroDivisionError\<close>, for one record and for the whole batch.
  The denominator is at least 1 whenever the \<open>clicks\<close> value is not NaN; it is exactly 1
  when \<open>clicks\<close> is absent and when it is a zero or negative number; for NaN it is NaN.
  (A \<open>clicks\<close> value that is not a number raises \<open>TypeError\<close> before the division, and
  operands beyond the range of a float raise \<open>OverflowError\<close>; the handler of
  \<open>discover_patterns\<close> catches both.)
\<close>

theorem conversion_rate_never_divides_by_zero:
  "(\<forall>d. clicks_denominator perf = Inr d \<longrightarrow>
        \<not> num_zero d \<and> (d = PFloat NaN \<or> num_le (PInt 1) d))
   \<and> (\<forall>d. map_of kvs ''clicks'' \<noteq> Some (JFloat NaN)
          \<and> clicks_denominator (JDict kvs) = Inr d \<longrightarrow> num_le (PInt 1) d)
   \<and> (map_of kvs ''clicks'' = None \<longrightarrow> clicks_denominator (JDict kvs) = Inr (PInt 1))
   \<and> (\<forall>i. map_of kvs ''clicks'' = Some (JInt i) \<and> i \<le> 0
          \<longrightarrow> clicks_denominator (JDict kvs) = Inr (PInt 1))
   \<and> (\<forall>r. map_of kvs ''clicks'' = Some (JFloat (Finite r)) \<and> r \<le> 0
          \<longrightarrow> clicks_denominator (JDict kvs) = Inr (PInt 1))
   \<and> (map_of kvs ''clicks'' = Some (JFloat NaN)
          \<longrightarrow> clicks_denominator (JDict kvs) = Inr (PFloat NaN))
   \<and> conversion_rate perf \<noteq> Inl ZeroDivisionError
   \<and> discover_patterns_body training_data \<noteq> Inl ZeroDivisionError"
proof -
  have a: "\<forall>d. clicks_denominator perf = Inr d \<longrightarrow>
        \<not> num_zero d \<and> (d = PFloat NaN \<or> num_le (PInt 1) d)"
    using clicks_denominator_not_zero clicks_denominator_ge by blast
  have b: "\<forall>d. map_of kvs ''clicks'' \<noteq> Some (JFloat NaN)
          \<and> clicks_denominator (JDict kvs) = Inr d \<longrightarrow> num_le (PInt 1) d"
    using clicks_denominator_no_nan by blast
  have c: "map_of kvs ''clicks'' = None \<longrightarrow> clicks_denominator (JDict kvs) = Inr (PInt 1)"
    by (simp add: clicks_denominator_def and_then_def py_max1_def num_lt_def)
  have d: "\<forall>i. map_of kvs ''clicks'' = Some (JInt i) \<and> i \<le> 0
          \<longrightarrow> clicks_denominator (JDict kvs) = Inr (PInt 1)"
    by (simp add: clicks_denominator_def and_then_def py_max1_def num_lt_def)
  have e: "\<forall>r. map_of kvs ''clicks'' = Some (JFloat (Finite r)) \<and> r \<le> 0
          \<longrightarrow> clicks_denominator (JDict kvs) = Inr (PInt 1)"
    by (simp add: clicks_denominator_def and_then_def py_max1_def num_lt_def)
  have f: "map_of kvs ''clicks'' = Some (JFloat NaN)
          \<longrightarrow> clicks_denominator (JDict kvs) = Inr (PFloat NaN)"
    by (simp add: clicks_denominator_def and_then_def py_max1_def num_lt_def)
  show ?thesis
    apply (intro conjI)
           apply (rule a)
          apply (rule b)
         apply (rule c)
        apply (rule d)
       apply (rule e)
      apply (rule f)
     apply (rule conversion_rate_not_zd)
    apply (rule discover_patterns_body_not_zd)
    done
qed

theorem conversion_rate_never_divides_by_zero_witness:
  "clicks_denominator (JDict [(''clicks'', JInt 0), (''conversions'', JInt 3)]) = Inr (PInt 1)
   \<and> \<not> num_zero (PInt 1) \<and> num_le (PInt 1) (PInt 1)
   \<and> clicks_denominator (JDict [(''conversions'', JInt 3)]) = Inr (PInt 1)
   \<and> clicks_denominator (JDict [(''clicks'', JInt (- 5))]) = Inr (PInt 1)
   \<and> clicks_denominator (JDict [(''clicks'', JFloat (Finite (- 1 / 2)))]) = Inr (PInt 1)
   \<and> clicks_denominator (JDict [(''clicks'', JFloat NaN)]) = Inr (PFloat NaN)
   \<and> \<not> num_zero (PFloat NaN)
   \<and> clicks_denominator (JDict [(''clicks'', JInt 40)]) = Inr (PInt 40)
   \<and> num_le (PInt 1) (PInt 40)
   \<and> conversion_rate (JDict [(''clicks'', JInt 0), (''conversions'', JInt 3)])
       = Inr (Finite 3)"
proof -
  have zero: "clicks_denominator (JDict [(''clicks'', JInt 0), (''conversions'', JInt 3)])
      = Inr (PInt 1)"
    using conversion_rate_never_divides_by_zero
            [where kvs = "[(''clicks'', JInt 0), (''conversions'', JInt 3)]"]
    by simp
  have absent: "clicks_denominator (JDict [(''conversions'', JInt 3)]) = Inr (PInt 1)"
    using conversion_rate_never_divides_by_zero [where kvs = "[(''conversions'', JInt 3)]"]
    by simp
  have neg: "clicks_denominator (JDict [(''clicks'', JInt (- 5))]) = Inr (PInt 1)"
    using conversion_rate_never_divides_by_zero [where kvs = "[(''clicks'', JInt (- 5))]"]
    by simp
  have negf: "clicks_denominator (JDict [(''clicks'', JFloat (Finite (- 1 / 2)))])
      = Inr (PInt 1)"
    using conversion_rate_never_divides_by_zero
            [where kvs = "[(''clicks'', JFloat (Finite (- 1 / 2)))]"]
    by simp
  have nan: "clicks_denominator (JDict [(''clicks'', JFloat NaN)]) = Inr (PFloat NaN)"
    using conversion_rate_never_divides_by_zero [where kvs = "[(''clicks'', JFloat NaN)]"]
    by simp
  have forty: "clicks_denominator (JDict [(''clicks'', JInt 40)]) = Inr (PInt 40)"
    by (simp add: clicks_denominator_def and_then_def py_max1_def num_lt_def)
  have one: "\<not> num_zero (PInt 1) \<and> num_le (PInt 1) (PInt 1)"
    using conversion_rate_never_divides_by_zero
            [where perf = "JDict [(''clicks'', JInt 0), (''conversions'', JInt 3)]"
               and kvs = "[(''clicks'', JInt 0), (''conversions'', JInt 3)]"]
          zero
    by (simp add: num_zero_def num_le_def float_le_def)
  have ge: "num_le (PInt 1) (PInt 40)"
    using conversion_rate_never_divides_by_zero [where kvs = "[(''clicks'', JInt 40)]"] forty
    by (simp add: num_le_def float_le_def)
  have nz: "\<not> num_zero (PFloat NaN)"
    using conversion_rate_never_divides_by_zero
            [where perf = "JDict [(''clicks'', JFloat NaN)]"] nan
    by (simp add: num_zero_def)
  have rate: "conversion_rate (JDict [(''clicks'', JInt 0), (''conversions'', JInt 3)])
      = Inr (Finite 3)"
    by (simp add: conversion_rate_def zero and_then_def py_truediv_def overflows_def)
  show ?thesis
    using zero absent neg negf nan forty one ge nz rate by simp
qed

section \<open>Properties of the classifier scripts\<close>

subsection \<open>Unfolding the scripts, and the sample run\<close>

lemma and_then_Inr: "and_then m f = Inr r \<longleftrightarrow> (\<exists>v. m = Inr v \<and> f v = Inr r)"
  by (cases m) (auto simp: and_then_def)

lemma fit_and_report_Inr:
  assumes "fit_and_report lib g fs argv cfg est X_train X_test y_train y_test = Inr (r, fs')"
  shows "\<exists>m y_pred cv out.
           fit lib est (estimator_rng est g) X_train y_train = Inr m
         \<and> predict_fn m X_test = Inr y_pred
         \<and> accuracy_score lib y_test y_pred = Inr (accuracy r)
         \<and> precision_score lib y_test y_pred = Inr (precision r)
         \<and> recall_score lib y_test y_pred = Inr (recall r)
         \<and> f1_score lib y_test y_pred = Inr (f1Score r)
         \<and> cv_scores lib est (estimator_rng est g) X_train y_train = Inr cv
         \<and> crossValidationScore r = mean cv
         \<and> featureImportance r = feature_importance_of m (features cfg)
         \<and> argv_at argv 2 = Inr out
         \<and> fs' = joblib_dump fs out m"
  using assms unfolding fit_and_report_def Let_def
  by (auto simp: and_then_Inr)

lemma train_model_Inr:
  assumes "train_model lib g fs argv = Inr (r, fs')"
  shows "\<exists>cfg hp X y X_train X_test y_train y_test est.
           load_features lib fs argv = Inr (cfg, hp, X, y)
         \<and> split_data lib g X y = Inr (X_train, X_test, y_train, y_test)
         \<and> init_model lib (algorithm cfg) hp = Inr est
         \<and> fit_and_report lib g fs argv cfg est X_train X_test y_train y_test = Inr (r, fs')"
  using assms unfolding train_model_def
  by (auto simp: and_then_Inr split: prod.splits)

lemma upt10: "[0..<10] = [0,1,2,3,4,5,6,7,8,9]"
  by code_simp

lemma upt2: "[0..<2] = [0, 1]"
  by code_simp

lemma sample_load:
  "load_features sample_sklearn (sample_fs alg) train_argv =
     Inr (sample_config alg, [], sample_X, sample_y)"
  by (simp add: load_features_def load_training_def argv_at_def and_then_def DataFrame_def
        select_columns_def select_column_def sample_sklearn_def sample_fs_def train_argv_def
        sample_records_def sample_record_def sample_config_def Let_def sample_X_def
        sample_y_def)

lemma sample_split:
  "split_data sample_sklearn g sample_X sample_y =
   Inr (drop 2 sample_X, take 2 sample_X, drop 2 sample_y, take 2 sample_y)"
  by (simp add: split_data_def train_test_split_def check_random_state_def rows_at_def
        and_then_def sample_sklearn_def sample_X_def sample_y_def upt10 upt2)

lemma sample_init:
  "init_model sample_sklearn alg [] = Inr \<lparr>est_class = (if alg = ''gradient_boosting'' then GradientBoostingClassifier
      else if alg = ''logistic_regression'' then LogisticRegression
      else if alg = ''neural_network'' then MLPClassifier else RandomForestClassifier), est_params = []\<rparr>"
  by (simp add: init_model_def construct_def)

lemma sample_report:
  "est_params est = [] \<Longrightarrow>
   fit_and_report sample_sklearn g fs train_argv cfg est
      (drop 2 sample_X) (take 2 sample_X) (drop 2 sample_y) (take 2 sample_y) =
     Inr (\<lparr>featureImportance = feature_importance_of sample_model (features cfg),
           accuracy = 1 / 2, precision = 1 / 4, recall = 1 / 2, f1Score = 1 / 3,
           confusionMatrix = [], crossValidationScore = 4 / 5\<rparr>,
          joblib_dump fs ''out.joblib'' sample_model)"
  by (simp add: fit_and_report_def estimator_rng_def check_random_state_def and_then_def
      sample_sklearn_def sample_X_def sample_y_def
      accuracy_score_def precision_score_def recall_score_def f1_score_def
      check_targets_def nan_cell_def weighted_average_def present_labels_def class_precision_def
      class_recall_def class_f1_def true_positives_def mean_def train_argv_def argv_at_def
      Let_def sample_model_def)

lemma sample_train_run:
  "train_model sample_sklearn g (sample_fs alg) train_argv =
     Inr (\<lparr>featureImportance = feature_importance_of sample_model [''x1'', ''x2''],
           accuracy = 1 / 2, precision = 1 / 4, recall = 1 / 2, f1Score = 1 / 3,
           confusionMatrix = [], crossValidationScore = 4 / 5\<rparr>,
          joblib_dump (sample_fs alg) ''out.joblib'' sample_model)"
  unfolding train_model_def sample_load
  by (simp add: and_then_def sample_split sample_init sample_report)
     (simp add: sample_config_def)

lemma evaluate_model_Inr:
  assumes "evaluate_model lib fs argv = Inr r"
  shows "\<exists>model_path m data_path doc df arg3 names X y y_pred.
           argv_at argv 1 = Inr model_path \<and> joblib_load fs model_path = Inr m
         \<and> argv_at argv 2 = Inr data_path \<and> open_json fs data_path = Inr doc
         \<and> frame_of_json doc = Inr df
         \<and> argv_at argv 3 = Inr arg3 \<and> loads_names lib arg3 = Inr names
         \<and> select_columns df names = Inr X \<and> select_column df ''target'' = Inr y
         \<and> predict_fn m X = Inr y_pred
         \<and> accuracy_score lib y y_pred = Inr (accuracy r)
         \<and> precision_score lib y y_pred = Inr (precision r)
         \<and> recall_score lib y y_pred = Inr (recall r)
         \<and> f1_score lib y y_pred = Inr (f1Score r)
         \<and> confusionMatrix r = confusion lib y y_pred
         \<and> featureImportance r = feature_importance_of m names"
  using assms unfolding evaluate_model_def
  by (auto simp: and_then_Inr)


lemma argv_at_Inr: "argv_at argv i = Inr p \<longleftrightarrow> i < length argv \<and> p = argv ! i"
  by (auto simp: argv_at_def)

lemma joblib_load_Inr: "joblib_load fs p = Inr m \<longleftrightarrow> fs p = Some (Joblib m)"
  by (auto simp: joblib_load_def split: option.splits stored.splits)

lemma open_frame_Inr:
  "open_json fs p = Inr doc \<and> frame_of_json doc = Inr df
     \<longleftrightarrow> (\<exists>recs. fs p = Some (EvalData recs) \<and> doc = EvalData recs \<and> df = DataFrame recs)"
  by (auto simp: open_json_def frame_of_json_def split: option.splits stored.splits)

lemma select_columns_Inr:
  "select_columns (DataFrame recs) names = Inr X \<Longrightarrow> X = map (\<lambda>r. map (map_of r) names) recs"
  by (auto simp: select_columns_def DataFrame_def split: if_splits)

lemma select_column_Inr:
  "select_column (DataFrame recs) name = Inr y \<Longrightarrow> y = map (\<lambda>r. map_of r name) recs"
  by (auto simp: select_column_def DataFrame_def split: if_splits)

lemma accuracy_score_lengths:
  "accuracy_score lib y_true y_pred = Inr a \<Longrightarrow> length y_pred = length y_true"
  by (auto simp: accuracy_score_def check_targets_def split: option.splits if_splits)

lemma sample_eval_run:
  "evaluate_model sample_sklearn (sample_fs alg) eval_argv =
     Inr \<lparr>featureImportance = feature_importance_of sample_model [''x1'', ''x2''],
          accuracy = 1 / 2, precision = 1 / 4, recall = 1 / 2, f1Score = 1 / 3,
          confusionMatrix = []\<rparr>"
  apply (simp add: evaluate_model_def argv_at_def eval_argv_def joblib_load_def open_json_def
      frame_of_json_def
      sample_fs_def and_then_def sample_sklearn_def DataFrame_def select_columns_def
      select_column_def sample_records_def sample_record_def)
  apply (simp add: sample_model_def
      accuracy_score_def precision_score_def recall_score_def f1_score_def
      check_targets_def nan_cell_def weighted_average_def present_labels_def class_precision_def
      class_recall_def class_f1_def true_positives_def)
  done


subsection \<open>The metrics lie between 0 and 1\<close>

lemma true_positives_le_pred: "true_positives c y_true y_pred \<le> count_list y_pred c"
  unfolding true_positives_def
proof (induction y_true arbitrary: y_pred)
  case Nil
  then show ?case by simp
next
  case (Cons t ts)
  then show ?case
  proof (cases y_pred)
    case Nil
    then show ?thesis by simp
  next
    case (Cons p ps)
    with Cons.IH[of ps] show ?thesis by auto
  qed
qed

lemma true_positives_le_true: "true_positives c y_true y_pred \<le> count_list y_true c"
  unfolding true_positives_def
proof (induction y_true arbitrary: y_pred)
  case Nil
  then show ?case by simp
next
  case (Cons t ts)
  then show ?case
  proof (cases y_pred)
    case Nil
    then show ?thesis by simp
  next
    case (Cons p ps)
    with Cons.IH[of ps] show ?thesis by auto
  qed
qed

lemma ratio_unit: "a \<le> b \<Longrightarrow> 0 \<le> (of_nat a :: rat) / of_nat b \<and> (of_nat a :: rat) / of_nat b \<le> 1"
  by (cases "b = 0") (simp_all add: divide_le_eq_1)

lemma class_precision_unit:
  "0 \<le> class_precision y_true y_pred c \<and> class_precision y_true y_pred c \<le> 1"
  unfolding class_precision_def
  using ratio_unit[OF true_positives_le_pred[of c y_true y_pred]] by simp

lemma class_recall_unit:
  "0 \<le> class_recall y_true y_pred c \<and> class_recall y_true y_pred c \<le> 1"
  unfolding class_recall_def
  using ratio_unit[OF true_positives_le_true[of c y_true y_pred]] by simp

lemma class_f1_unit:
  "0 \<le> class_f1 y_true y_pred c \<and> class_f1 y_true y_pred c \<le> 1"
proof -
  have "2 * true_positives c y_true y_pred \<le> count_list y_true c + count_list y_pred c"
    using true_positives_le_pred[of c y_true y_pred] true_positives_le_true[of c y_true y_pred]
    by linarith
  from ratio_unit[OF this] show ?thesis
    unfolding class_f1_def by simp
qed

lemma weighted_sum_bounds:
  fixes w score :: "'a \<Rightarrow> rat"
  assumes "\<And>c. 0 \<le> w c" "\<And>c. 0 \<le> score c \<and> score c \<le> 1"
  shows "0 \<le> sum_list (map (\<lambda>c. w c * score c) ls)
         \<and> sum_list (map (\<lambda>c. w c * score c) ls) \<le> sum_list (map w ls)"
proof (induction ls)
  case Nil
  then show ?case by simp
next
  case (Cons a ls)
  have "0 \<le> w a * score a" using assms by simp
  moreover have "w a * score a \<le> w a"
    using assms[of a] by (simp add: mult_left_le)
  ultimately show ?case using Cons by simp
qed

lemma weighted_average_unit:
  assumes "\<And>c. 0 \<le> score c \<and> score c \<le> 1"
  shows "0 \<le> weighted_average score y_true y_pred \<and> weighted_average score y_true y_pred \<le> 1"
proof -
  let ?ls = "present_labels y_true y_pred"
  let ?w = "\<lambda>c. (of_nat (count_list y_true c) :: rat)"
  have b: "0 \<le> sum_list (map (\<lambda>c. ?w c * score c) ?ls)
           \<and> sum_list (map (\<lambda>c. ?w c * score c) ?ls) \<le> sum_list (map ?w ?ls)"
    by (rule weighted_sum_bounds) (simp_all add: assms)
  show ?thesis
  proof (cases "sum_list (map ?w ?ls) = 0")
    case True
    then show ?thesis by (simp add: weighted_average_def)
  next
    case False
    with b have pos: "0 < sum_list (map ?w ?ls)" by linarith
    with b show ?thesis
      by (simp add: weighted_average_def Let_def divide_le_eq_1)
  qed
qed

lemma accuracy_score_unit: "accuracy_score lib y_true y_pred = Inr a \<Longrightarrow> 0 \<le> a \<and> a \<le> 1"
proof -
  assume h: "accuracy_score lib y_true y_pred = Inr a"
  have "length (filter (\<lambda>tp. fst tp = snd tp) (zip y_true y_pred)) \<le> length y_true"
    by (rule order_trans[OF length_filter_le]) simp
  from ratio_unit[OF this] h show ?thesis
    by (auto simp: accuracy_score_def split: option.splits)
qed

lemma precision_score_unit: "precision_score lib y_true y_pred = Inr a \<Longrightarrow> 0 \<le> a \<and> a \<le> 1"
  using weighted_average_unit[of "class_precision y_true y_pred", OF class_precision_unit]
  by (auto simp: precision_score_def split: option.splits)

lemma recall_score_unit: "recall_score lib y_true y_pred = Inr a \<Longrightarrow> 0 \<le> a \<and> a \<le> 1"
  using weighted_average_unit[of "class_recall y_true y_pred", OF class_recall_unit]
  by (auto simp: recall_score_def split: option.splits)

lemma f1_score_unit: "f1_score lib y_true y_pred = Inr a \<Longrightarrow> 0 \<le> a \<and> a \<le> 1"
  using weighted_average_unit[of "class_f1 y_true y_pred", OF class_f1_unit]
  by (auto simp: f1_score_def split: option.splits)

text \<open>
  C8. Whenever \<open>train_model\<close> returns, the accuracy, the precision, the recall and the F1
  score it reports (weighted averages over the classes, on the test partition) lie
  between 0 and 1. No bound on the number of records is needed; the witness is a run on
  ten records. The metrics are the exact values of the library's definitions.
\<close>

theorem train_metrics_in_unit_interval:
  assumes "train_model lib g fs argv = Inr (r, fs')"
  shows "0 \<le> accuracy r \<and> accuracy r \<le> 1 \<and> 0 \<le> precision r \<and> precision r \<le> 1
       \<and> 0 \<le> recall r \<and> recall r \<le> 1 \<and> 0 \<le> f1Score r \<and> f1Score r \<le> 1"
proof -
  from train_model_Inr[OF assms] obtain cfg est X_train X_test y_train y_test where
    "fit_and_report lib g fs argv cfg est X_train X_test y_train y_test = Inr (r, fs')"
    by blast
  from fit_and_report_Inr[OF this] obtain y_pred where
    "accuracy_score lib y_test y_pred = Inr (accuracy r)"
    "precision_score lib y_test y_pred = Inr (precision r)"
    "recall_score lib y_test y_pred = Inr (recall r)"
    "f1_score lib y_test y_pred = Inr (f1Score r)"
    by blast
  then show ?thesis
    using accuracy_score_unit precision_score_unit recall_score_unit f1_score_unit
    by blast
qed

theorem train_metrics_in_unit_interval_witness:
  "length sample_records = 10
   \<and> train_model sample_sklearn 0 (sample_fs ''random_forest'') train_argv =
       Inr (\<lparr>featureImportance = feature_importance_of sample_model [''x1'', ''x2''],
             accuracy = 1 / 2, precision = 1 / 4, recall = 1 / 2, f1Score = 1 / 3,
             confusionMatrix = [], crossValidationScore = 4 / 5\<rparr>,
            joblib_dump (sample_fs ''random_forest'') ''out.joblib'' sample_model)
   \<and> (0::rat) \<le> 1 / 2 \<and> (1 / 2 :: rat) \<le> 1 \<and> (0::rat) \<le> 1 / 4 \<and> (1 / 4 :: rat) \<le> 1
   \<and> (0::rat) \<le> 1 / 3 \<and> (1 / 3 :: rat) \<le> 1"
  using train_metrics_in_unit_interval
          [OF sample_train_run [of 0 "''random_forest''"]]
        sample_train_run [of 0 "''random_forest''"]
  by (simp add: sample_records_def)

subsection \<open>An unknown algorithm name\<close>




subsection \<open>Feature importances\<close>






subsection \<open>The confidence of a prediction\<close>










subsection \<open>Evaluation of a stored model\<close>

lemma evaluate_model_absent:
  assumes "1 < length argv" "fs (argv ! 1) = None"
  shows "evaluate_model lib fs argv = Inl FileNotFoundError"
  using assms by (simp add: evaluate_model_def argv_at_def and_then_def joblib_load_def)

lemma evaluate_model_full_dataset:
  assumes "evaluate_model lib fs argv = Inr r"
  shows "\<exists>m recs names y_pred.
           fs (argv ! 1) = Some (Joblib m) \<and> fs (argv ! 2) = Some (EvalData recs)
         \<and> loads_names lib (argv ! 3) = Inr names
         \<and> predict_fn m (map (\<lambda>rec. map (map_of rec) names) recs) = Inr y_pred
         \<and> length y_pred = length recs
         \<and> accuracy_score lib (map (\<lambda>rec. map_of rec ''target'') recs) y_pred
             = Inr (accuracy r)
         \<and> precision_score lib (map (\<lambda>rec. map_of rec ''target'') recs) y_pred
             = Inr (precision r)
         \<and> recall_score lib (map (\<lambda>rec. map_of rec ''target'') recs) y_pred
             = Inr (recall r)
         \<and> f1_score lib (map (\<lambda>rec. map_of rec ''target'') recs) y_pred
             = Inr (f1Score r)"
proof -
  from evaluate_model_Inr[OF assms] obtain model_path m data_path doc df arg3 names X y y_pred
    where h: "argv_at argv 1 = Inr model_path" "joblib_load fs model_path = Inr m"
      "argv_at argv 2 = Inr data_path"
      "open_json fs data_path = Inr doc \<and> frame_of_json doc = Inr df"
      "argv_at argv 3 = Inr arg3" "loads_names lib arg3 = Inr names"
      "select_columns df names = Inr X" "select_column df ''target'' = Inr y"
      "predict_fn m X = Inr y_pred"
      "accuracy_score lib y y_pred = Inr (accuracy r)"
      "precision_score lib y y_pred = Inr (precision r)"
      "recall_score lib y y_pred = Inr (recall r)"
      "f1_score lib y y_pred = Inr (f1Score r)"
    by blast
  from h(4) obtain recs where recs: "fs data_path = Some (EvalData recs)" "df = DataFrame recs"
    by (auto simp: open_frame_Inr)
  have X: "X = map (\<lambda>rec. map (map_of rec) names) recs"
    using h(7) recs(2) by (simp add: select_columns_Inr)
  have y: "y = map (\<lambda>rec. map_of rec ''target'') recs"
    using h(8) recs(2) by (simp add: select_column_Inr)
  have len: "length y_pred = length recs"
    using accuracy_score_lengths[OF h(10)] y by simp
  show ?thesis
    using h(1,2,3,5,6,9,10,11,12,13) recs(1) X y len
    by (auto simp: argv_at_Inr joblib_load_Inr)
qed

lemma train_model_metrics:
  assumes "train_model lib g fs argv = Inr (tr, fs')"
  shows "\<exists>y_test y_pred.
           accuracy_score lib y_test y_pred = Inr (accuracy tr)
         \<and> precision_score lib y_test y_pred = Inr (precision tr)
         \<and> recall_score lib y_test y_pred = Inr (recall tr)
         \<and> f1_score lib y_test y_pred = Inr (f1Score tr)"
proof -
  from train_model_Inr[OF assms] obtain cfg est X_train X_test y_train y_test where
    "fit_and_report lib g fs argv cfg est X_train X_test y_train y_test = Inr (tr, fs')"
    by blast
  from fit_and_report_Inr[OF this] show ?thesis by blast
qed

text \<open>
  C6. When the Model Store has nothing under the path of the model, \<open>evaluate_model\<close>
  fails: \<open>joblib.load\<close> raises \<open>FileNotFoundError\<close>, the exception that stands for the
  specification's \<open>ModelNotFoundError\<close>. When the model is there and the script returns,
  the predictions are made for every record of the supplied data, one per record, with
  no split, and the accuracy, precision, recall and F1 score are those of the target
  column of all records against these predictions, computed by the same four metric
  functions that \<open>train_model\<close> applies to its test partition.
\<close>

theorem evaluate_needs_model_and_scores_all_records:
  "(1 < length argv \<and> fs (argv ! 1) = None
      \<longrightarrow> evaluate_model lib fs argv = Inl FileNotFoundError)
   \<and> (evaluate_model lib fs argv = Inr r \<longrightarrow>
        (\<exists>m recs names y_pred.
           fs (argv ! 1) = Some (Joblib m) \<and> fs (argv ! 2) = Some (EvalData recs)
         \<and> loads_names lib (argv ! 3) = Inr names
         \<and> predict_fn m (map (\<lambda>rec. map (map_of rec) names) recs) = Inr y_pred
         \<and> length y_pred = length recs
         \<and> accuracy_score lib (map (\<lambda>rec. map_of rec ''target'') recs) y_pred
             = Inr (accuracy r)
         \<and> precision_score lib (map (\<lambda>rec. map_of rec ''target'') recs) y_pred
             = Inr (precision r)
         \<and> recall_score lib (map (\<lambda>rec. map_of rec ''target'') recs) y_pred
             = Inr (recall r)
         \<and> f1_score lib (map (\<lambda>rec. map_of rec ''target'') recs) y_pred
             = Inr (f1Score r)))
   \<and> (train_model lib g fs argv' = Inr (tr, fs') \<longrightarrow>
        (\<exists>y_test y_pred.
           accuracy_score lib y_test y_pred = Inr (accuracy tr)
         \<and> precision_score lib y_test y_pred = Inr (precision tr)
         \<and> recall_score lib y_test y_pred = Inr (recall tr)
         \<and> f1_score lib y_test y_pred = Inr (f1Score tr)))"
  using evaluate_model_absent[of argv fs lib] evaluate_model_full_dataset[of lib fs argv r]
    train_model_metrics[of lib g fs argv' tr fs']
  by blast

theorem evaluate_needs_model_and_scores_all_records_witness:
  "1 < length eval_argv \<and> Map.empty (eval_argv ! 1) = (None :: stored option)
   \<and> evaluate_model sample_sklearn Map.empty eval_argv = Inl FileNotFoundError
   \<and> evaluate_model sample_sklearn (sample_fs ''random_forest'') eval_argv =
       Inr \<lparr>featureImportance = feature_importance_of sample_model [''x1'', ''x2''],
            accuracy = 1 / 2, precision = 1 / 4, recall = 1 / 2, f1Score = 1 / 3,
            confusionMatrix = []\<rparr>
   \<and> length sample_records = 10
   \<and> train_model sample_sklearn 0 (sample_fs ''random_forest'') train_argv =
       Inr (\<lparr>featureImportance = feature_importance_of sample_model [''x1'', ''x2''],
             accuracy = 1 / 2, precision = 1 / 4, recall = 1 / 2, f1Score = 1 / 3,
             confusionMatrix = [], crossValidationScore = 4 / 5\<rparr>,
            joblib_dump (sample_fs ''random_forest'') ''out.joblib'' sample_model)"
proof -
  have a: "1 < length eval_argv \<and> Map.empty (eval_argv ! 1) = (None :: stored option)"
    by (simp add: eval_argv_def)
  have b: "evaluate_model sample_sklearn Map.empty eval_argv = Inl FileNotFoundError"
    using evaluate_needs_model_and_scores_all_records
            [where argv = eval_argv and fs = Map.empty and lib = sample_sklearn] a
    by blast
  show ?thesis
    using a b sample_eval_run [of "''random_forest''"]
      sample_train_run [of 0 "''random_forest''"]
    by (simp add: sample_records_def)
qed

subsection \<open>Failures and handlers\<close>













subsection \<open>Records with missing keys\<close>

lemma in_df_columns:
  "name \<in> set (df_columns (DataFrame recs)) \<longleftrightarrow> (\<exists>rec \<in> set recs. map_of rec name \<noteq> None)"
  by (auto simp: DataFrame_def map_of_eq_None_iff)

lemma select_columns_missing:
  assumes "name \<in> set names" "\<forall>rec \<in> set recs. map_of rec name = None"
  shows "select_columns (DataFrame recs) names = Inl KeyError"
proof -
  have "name \<notin> set (df_columns (DataFrame recs))"
    using assms(2) by (simp add: in_df_columns)
  with assms(1) show ?thesis
    unfolding select_columns_def by auto
qed

lemma select_column_missing:
  assumes "\<forall>rec \<in> set recs. map_of rec name = None"
  shows "select_column (DataFrame recs) name = Inl KeyError"
proof -
  have "name \<notin> set (df_columns (DataFrame recs))"
    using assms by (simp add: in_df_columns)
  then show ?thesis
    unfolding select_column_def by simp
qed

lemma select_columns_present:
  assumes "\<forall>n \<in> set names. \<exists>rec \<in> set recs. map_of rec n \<noteq> None"
  shows "select_columns (DataFrame recs) names = Inr (map (\<lambda>rec. map (map_of rec) names) recs)"
proof -
  have "\<forall>n \<in> set names. n \<in> set (df_columns (DataFrame recs))"
    using assms by (simp add: in_df_columns)
  then show ?thesis
    unfolding select_columns_def by (simp add: DataFrame_def)
qed

lemma select_columns_cases:
  "select_columns df names = Inl KeyError \<or> (\<exists>X. select_columns df names = Inr X)"
  by (simp add: select_columns_def)

lemma load_features_missing:
  assumes "3 < length argv" "fs (argv ! 1) = Some (TrainingData d)"
    "loads_object lib (argv ! 3) = Inr hp"
    "name \<in> set (features (file_config d)) \<or> name = targetVariable (file_config d)"
    "\<forall>rec \<in> set (file_data d). map_of rec name = None"
  shows "load_features lib fs argv = Inl KeyError"
proof -
  let ?df = "DataFrame (file_data d)"
  have l: "load_features lib fs argv =
        and_then (select_columns ?df (features (file_config d))) (\<lambda>X.
        and_then (select_column ?df (targetVariable (file_config d))) (\<lambda>y.
        Inr (file_config d, hp, X, y)))"
    using assms(1,2,3)
    by (simp add: load_features_def argv_at_def and_then_def load_training_def Let_def)
  from assms(4) show ?thesis
  proof
    assume "name \<in> set (features (file_config d))"
    from select_columns_missing[OF this assms(5)] l show ?thesis
      by (simp add: and_then_def)
  next
    assume "name = targetVariable (file_config d)"
    with select_column_missing[OF assms(5)] l
      select_columns_cases[of ?df "features (file_config d)"]
    show ?thesis
      by (auto simp: and_then_def)
  qed
qed

lemma train_model_missing:
  assumes "3 < length argv" "fs (argv ! 1) = Some (TrainingData d)"
    "loads_object lib (argv ! 3) = Inr hp"
    "name \<in> set (features (file_config d)) \<or> name = targetVariable (file_config d)"
    "\<forall>rec \<in> set (file_data d). map_of rec name = None"
  shows "train_model_script lib g fs argv = Uncaught KeyError"
  using load_features_missing
          [where argv = argv and fs = fs and d = d and lib = lib and hp = hp and name = name,
           OF assms]
  by (simp add: train_model_script_def run_script_def train_model_def and_then_def)

lemma evaluate_model_missing:
  assumes "3 < length argv" "fs (argv ! 1) = Some (Joblib m)"
    "fs (argv ! 2) = Some (EvalData recs)" "loads_names lib (argv ! 3) = Inr names"
    "name \<in> set names \<or> name = ''target''"
    "\<forall>rec \<in> set recs. map_of rec name = None"
  shows "evaluate_model_script lib fs argv = Uncaught KeyError"
proof -
  let ?df = "DataFrame recs"
  have l: "evaluate_model lib fs argv =
        and_then (select_columns ?df names) (\<lambda>X.
        and_then (select_column ?df ''target'') (\<lambda>y.
        and_then (predict_fn m X) (\<lambda>y_pred.
        and_then (accuracy_score lib y y_pred) (\<lambda>acc.
        and_then (precision_score lib y y_pred) (\<lambda>prec.
        and_then (recall_score lib y y_pred) (\<lambda>rec.
        and_then (f1_score lib y y_pred) (\<lambda>f1.
          Inr \<lparr>featureImportance = feature_importance_of m names,
               accuracy = acc, precision = prec, recall = rec, f1Score = f1,
               confusionMatrix = confusion lib y y_pred\<rparr>)))))))"
    using assms(1,2,3,4)
    by (simp add: evaluate_model_def argv_at_def and_then_def joblib_load_def open_json_def
          frame_of_json_def)
  from assms(5) have "evaluate_model lib fs argv = Inl KeyError"
  proof
    assume "name \<in> set names"
    from select_columns_missing[OF this assms(6)] l show ?thesis
      by (simp add: and_then_def)
  next
    assume "name = ''target''"
    with select_column_missing[OF assms(6)] l select_columns_cases[of ?df names]
    show ?thesis
      by (auto simp: and_then_def)
  qed
  then show ?thesis
    by (simp add: evaluate_model_script_def run_script_def)
qed

text \<open>
  C3, as stated, fails: a record may lack a required feature key without any failure
  of the feature builder. The second of two records has no \<open>x2\<close>; the feature matrix is
  built all the same, with NaN in that cell.
\<close>

theorem ragged_records_counterexample:
  "map_of [(''x1'', JInt 0), (''target'', JInt 0)] ''x2'' = None
   \<and> load_features sample_sklearn ragged_fs train_argv =
       Inr (sample_config ''random_forest'', [],
            [[Some (JInt 1), Some (JInt 0)], [Some (JInt 0), None]],
            [Some (JInt 1), Some (JInt 0)])"
  by (simp add: load_features_def argv_at_def train_argv_def and_then_def load_training_def
        ragged_fs_def ragged_records_def sample_record_def sample_sklearn_def DataFrame_def
        select_columns_def select_column_def sample_config_def Let_def)

text \<open>
  C3, amended. The data frame has a column for every key that occurs in some record.
  When a required feature key or the target key occurs in no record at all, selecting
  the column raises \<open>KeyError\<close>, and the training and the evaluation script end in that
  uncaught exception (there is no \<open>SchemaError\<close> and no handler). When every required
  key occurs in at least one record, the feature matrix is built, and a record without
  the key has NaN in its cell.
\<close>

theorem missing_column_raises_key_error:
  "(name \<in> set names \<and> (\<forall>rec \<in> set recs. map_of rec name = None)
      \<longrightarrow> select_columns (DataFrame recs) names = Inl KeyError)
   \<and> ((\<forall>rec \<in> set recs. map_of rec name = None)
      \<longrightarrow> select_column (DataFrame recs) name = Inl KeyError)
   \<and> ((\<forall>n \<in> set names. \<exists>rec \<in> set recs. map_of rec n \<noteq> None)
      \<longrightarrow> select_columns (DataFrame recs) names
            = Inr (map (\<lambda>rec. map (map_of rec) names) recs))
   \<and> (3 < length argv \<and> fs (argv ! 1) = Some (TrainingData d)
        \<and> loads_object lib (argv ! 3) = Inr hp
        \<and> (name \<in> set (features (file_config d)) \<or> name = targetVariable (file_config d))
        \<and> (\<forall>rec \<in> set (file_data d). map_of rec name = None)
      \<longrightarrow> train_model_script lib g fs argv = Uncaught KeyError)
   \<and> (3 < length argv \<and> fs (argv ! 1) = Some (Joblib m)
        \<and> fs (argv ! 2) = Some (EvalData recs) \<and> loads_names lib (argv ! 3) = Inr names
        \<and> (name \<in> set names \<or> name = ''target'')
        \<and> (\<forall>rec \<in> set recs. map_of rec name = None)
      \<longrightarrow> evaluate_model_script lib fs argv = Uncaught KeyError)"
  apply (intro conjI impI)
      apply (elim conjE, erule (1) select_columns_missing)
     apply (erule select_column_missing)
    apply (erule select_columns_present)
   apply (elim conjE, rule train_model_missing [where d = d and hp = hp and name = name],
      assumption+)
  apply (elim conjE, rule evaluate_model_missing
      [where m = m and recs = recs and names = names and name = name], assumption+)
  done


theorem missing_column_raises_key_error_witness:
  "select_columns (DataFrame sample_records) [''x1'', ''x3''] = Inl KeyError
   \<and> select_column (DataFrame sample_records) ''label'' = Inl KeyError
   \<and> select_columns (DataFrame ragged_records) [''x1'', ''x2'']
       = Inr [[Some (JInt 1), Some (JInt 0)], [Some (JInt 0), None]]
   \<and> train_model_script sample_sklearn 0 incomplete_fs train_argv = Uncaught KeyError
   \<and> evaluate_model_script sample_sklearn incomplete_fs eval_argv = Uncaught KeyError"
proof -
  have no_x3: "\<forall>rec \<in> set sample_records. map_of rec ''x3'' = None"
    by (simp add: sample_records_def sample_record_def)
  have no_label: "\<forall>rec \<in> set sample_records. map_of rec ''label'' = None"
    by (simp add: sample_records_def sample_record_def)
  have a: "select_columns (DataFrame sample_records) [''x1'', ''x3''] = Inl KeyError"
    using missing_column_raises_key_error
            [where name = "''x3''" and names = "[''x1'', ''x3'']" and recs = sample_records]
          no_x3
    by simp
  have b: "select_column (DataFrame sample_records) ''label'' = Inl KeyError"
    using missing_column_raises_key_error
            [where name = "''label''" and recs = sample_records]
          no_label
    by simp
  have present: "\<forall>n \<in> set [''x1'', ''x2'']. \<exists>rec \<in> set ragged_records. map_of rec n \<noteq> None"
    by (simp add: ragged_records_def sample_record_def)
  have c: "select_columns (DataFrame ragged_records) [''x1'', ''x2'']
       = Inr [[Some (JInt 1), Some (JInt 0)], [Some (JInt 0), None]]"
    using missing_column_raises_key_error
            [where names = "[''x1'', ''x2'']" and recs = ragged_records]
          present
    by (simp add: ragged_records_def sample_record_def)
  have t: "train_model_script sample_sklearn 0 incomplete_fs train_argv = Uncaught KeyError"
    using missing_column_raises_key_error
            [where name = "''x3''" and argv = train_argv and fs = incomplete_fs
               and lib = sample_sklearn and hp = "[]" and g = 0
               and d = "\<lparr>file_data = sample_records,
                            file_config = \<lparr>features = [''x1'', ''x3''],
                                           targetVariable = ''target'',
                                           algorithm = ''random_forest''\<rparr>\<rparr>"]
          no_x3
    by (simp add: train_argv_def incomplete_fs_def sample_sklearn_def)
  have e: "evaluate_model_script sample_sklearn incomplete_fs eval_argv = Uncaught KeyError"
    using missing_column_raises_key_error
            [where name = "''target''" and argv = eval_argv and fs = incomplete_fs
               and lib = sample_sklearn and m = sample_model
               and recs = "[[(''x1'', JInt 1), (''x2'', JInt 0)]]"
               and names = "[''x1'', ''x2'']"]
    by (simp add: eval_argv_def incomplete_fs_def sample_sklearn_def)
  show ?thesis
    using a b c t e by simp
qed

subsection \<open>The split and the random generator\<close>

text \<open>
  \<open>train_test_split\<close> is called with \<open>random_state=42\<close>, so the partitions do not depend
  on the state of the process-wide generator. The estimator is built from the
  hyperparameters; when they hold an integer \<open>random_state\<close> for one of the four named
  algorithms, no step of the run looks at the process-wide generator.
\<close>

lemma split_data_seeded: "split_data lib g1 X y = split_data lib g2 X y"
  by (simp add: split_data_def train_test_split_def check_random_state_def)

lemma construct_params: "construct lib c kwargs = Inr est \<Longrightarrow> est_params est = kwargs"
  by (auto simp: construct_def split: if_splits)

lemma init_model_params:
  assumes "alg \<in> {''random_forest'', ''gradient_boosting'', ''logistic_regression'',
                  ''neural_network''}"
    "init_model lib alg hp = Inr est"
  shows "est_params est = hp"
  using assms by (auto simp: init_model_def dest: construct_params split: if_splits)

lemma estimator_rng_seeded:
  "map_of (est_params est) ''random_state'' = Some (JInt s) \<Longrightarrow> estimator_rng est g = Seeded s"
  by (simp add: estimator_rng_def check_random_state_def)

lemma fit_and_report_seeded:
  assumes "map_of (est_params est) ''random_state'' = Some (JInt s)"
  shows "fit_and_report lib g1 fs argv cfg est X_train X_test y_train y_test
       = fit_and_report lib g2 fs argv cfg est X_train X_test y_train y_test"
  by (simp add: fit_and_report_def estimator_rng_seeded[OF assms])

lemma train_model_seeded:
  assumes "load_features lib fs argv = Inr (cfg, hp, X, y)"
    "algorithm cfg \<in> {''random_forest'', ''gradient_boosting'', ''logistic_regression'',
                        ''neural_network''}"
    "map_of hp ''random_state'' = Some (JInt s)"
  shows "train_model lib g1 fs argv = train_model lib g2 fs argv"
proof -
  have t: "train_model lib g fs argv =
        and_then (split_data lib g X y) (\<lambda>(X_train, X_test, y_train, y_test).
        and_then (init_model lib (algorithm cfg) hp) (\<lambda>est.
        fit_and_report lib g fs argv cfg est X_train X_test y_train y_test))" for g
    by (simp add: train_model_def assms(1) and_then_def)
  have r: "and_then (init_model lib (algorithm cfg) hp) (\<lambda>est.
             fit_and_report lib g1 fs argv cfg est X_train X_test y_train y_test)
         = and_then (init_model lib (algorithm cfg) hp) (\<lambda>est.
             fit_and_report lib g2 fs argv cfg est X_train X_test y_train y_test)"
    for X_train X_test y_train y_test
  proof (cases "init_model lib (algorithm cfg) hp")
    case (Inl e)
    then show ?thesis by (simp add: and_then_def)
  next
    case (Inr est)
    from init_model_params[OF assms(2) Inr] assms(3)
    have "map_of (est_params est) ''random_state'' = Some (JInt s)" by simp
    from fit_and_report_seeded[OF this] Inr show ?thesis
      by (simp add: and_then_def)
  qed
  show ?thesis
    unfolding t split_data_seeded[of lib g1 X y g2]
    by (simp add: r cong: prod.case_cong)
qed

end
